theory Spec2Isabelle
  imports Complex_Main "HOL-Library.AList"
begin

section \<open>Python values\<close>

text \<open>
  The values that travel through \<^verbatim>\<open>mona_openai.py\<close>: keyword arguments, responses,
  logging messages. A Python \<^verbatim>\<open>dict\<close> is an association list in insertion order with
  one entry per key; \<^verbatim>\<open>d[k] = v\<close> is \<open>AList.update\<close> (overwrite in place, or
  append). \<^verbatim>\<open>PIter\<close> is an iterator object over a finite sequence of chunks (what the
  target returns for \<^verbatim>\<open>stream=True\<close>). Floats are idealised as reals; the only float
  operations of the module are the two subtractions of clock readings.
\<close>

datatype pyval =
    PNone
  | PBool bool
  | PInt int
  | PFloat real
  | PStr string
  | PList "pyval list"
  | PDict "(string \<times> pyval) list"
  | PIter "pyval list"

type_synonym pydict = "(string \<times> pyval) list"

text \<open>An instance of Python's \<^verbatim>\<open>Exception\<close>: its class name and its message.\<close>

datatype exn = Exn (kind: string) (msg: string)

text \<open>Truth value of an object, as \<^verbatim>\<open>if x:\<close> tests it.\<close>

fun truthy :: "pyval \<Rightarrow> bool" where
  "truthy PNone = False"
| "truthy (PBool b) = b"
| "truthy (PInt i) = (i \<noteq> 0)"
| "truthy (PFloat r) = (r \<noteq> 0)"
| "truthy (PStr s) = (s \<noteq> [])"
| "truthy (PList xs) = (xs \<noteq> [])"
| "truthy (PDict d) = (d \<noteq> [])"
| "truthy (PIter xs) = True"

text \<open>\<^verbatim>\<open>d.get(k, default)\<close>.\<close>

definition dict_get :: "pydict \<Rightarrow> string \<Rightarrow> pyval \<Rightarrow> pyval" where
  "dict_get d k dflt = (case map_of d k of None \<Rightarrow> dflt | Some v \<Rightarrow> v)"

text \<open>
  \<^verbatim>\<open>x[k]\<close> with a string key: a dict raises \<^verbatim>\<open>KeyError\<close> on a missing key, every
  other value of the model raises \<^verbatim>\<open>TypeError\<close>.
\<close>

fun subscript :: "pyval \<Rightarrow> string \<Rightarrow> exn + pyval" where
  "subscript (PDict d) k =
     (case map_of d k of None \<Rightarrow> Inl (Exn ''KeyError'' k) | Some v \<Rightarrow> Inr v)"
| "subscript v k = Inl (Exn ''TypeError'' ''subscript with a str key'')"

text \<open>\<^verbatim>\<open>a | b\<close> on dicts: the entries of \<open>b\<close> are written into \<open>a\<close> one by one.\<close>

definition dict_union :: "pydict \<Rightarrow> pydict \<Rightarrow> pydict" where
  "dict_union a b = fold (\<lambda>(k, v) d. AList.update k v d) b a"

text \<open>\<^verbatim>\<open>s.startswith(p)\<close>.\<close>

definition startswith :: "string \<Rightarrow> string \<Rightarrow> bool" where
  "startswith s p = (take (length p) s = p)"

text \<open>
  \<^verbatim>\<open>copy.deepcopy\<close>: plain values, lists and dicts are copied, and the copy is equal
  to the original; an iterator or generator object, at any depth, cannot be copied and
  \<^verbatim>\<open>deepcopy\<close> raises \<^verbatim>\<open>TypeError\<close>. The keys of a keyword-argument dict are strings.
\<close>

fun copyable :: "pyval \<Rightarrow> bool" where
  "copyable PNone = True"
| "copyable (PBool b) = True"
| "copyable (PInt i) = True"
| "copyable (PFloat r) = True"
| "copyable (PStr s) = True"
| "copyable (PList xs) = list_all copyable xs"
| "copyable (PDict d) = list_all (\<lambda>kv. copyable (snd kv)) d"
| "copyable (PIter xs) = False"

definition deepcopy :: "pydict \<Rightarrow> exn + pydict" where
  "deepcopy d =
     (if copyable (PDict d) then Inr d
      else Inl (Exn ''TypeError'' ''cannot pickle generator object''))"

section \<open>Module constants\<close>

definition MONA_ARGS_PREFIX :: string where
  "MONA_ARGS_PREFIX = ''MONA_''"

definition CONTEXT_ID_ARG_NAME :: string where
  "CONTEXT_ID_ARG_NAME = MONA_ARGS_PREFIX @ ''context_id''"

definition EXPORT_TIMESTAMP_ARG_NAME :: string where
  "EXPORT_TIMESTAMP_ARG_NAME = MONA_ARGS_PREFIX @ ''export_timestamp''"

definition ADDITIONAL_DATA_ARG_NAME :: string where
  "ADDITIONAL_DATA_ARG_NAME = MONA_ARGS_PREFIX @ ''additional_data''"

text \<open>
  Modelled from the spec: \<^verbatim>\<open>util/general_consts.py\<close> is not among the sources; the
  constant \<^verbatim>\<open>EMPTY_DICT\<close> is the empty mapping its name says (the spec's "optional"
  additional data and "default false" flags).
\<close>

definition EMPTY_DICT :: pyval where
  "EMPTY_DICT = PDict []"

section \<open>The logging message\<close>

text \<open>
  \<^verbatim>\<open>_get_logging_message\<close> (module level). The clock reading \<open>now\<close> is the value of
  \<^verbatim>\<open>time.time()\<close> inside the function. The analysis getter and the message cleaner
  are the endpoint's, passed in as in the source.
\<close>

definition get_logging_message ::
  "string \<Rightarrow> pydict \<Rightarrow> real \<Rightarrow> bool \<Rightarrow> bool \<Rightarrow> real option \<Rightarrow> pyval \<Rightarrow>
   (pydict \<Rightarrow> pyval \<Rightarrow> pyval) \<Rightarrow> (pydict \<Rightarrow> pydict) \<Rightarrow> pyval \<Rightarrow> real \<Rightarrow> pydict" where
  "get_logging_message api_name request_input start_time is_exception is_async
     stream_start_time response analysis_getter message_cleaner additional_data now =
   (let message =
          [(''input'', PDict request_input),
           (''latency'', PFloat (now - start_time)),
           (''stream_start_latency'',
              (case stream_start_time of
                 Some t \<Rightarrow> PFloat (t - start_time)
               | None \<Rightarrow> PNone)),
           (''is_exception'', PBool is_exception),
           (''api_name'', PStr api_name),
           (''is_async'', PBool is_async)];
        message =
          (if truthy additional_data
           then AList.update ''additional_data'' additional_data message
           else message);
        message =
          (if truthy response
           then AList.update ''analysis'' (analysis_getter request_input response)
                  (AList.update ''response'' response message)
           else message)
    in message_cleaner message)"

section \<open>The monitored class\<close>

text \<open>
  What \<^verbatim>\<open>monitor_with_logger\<close> closes over: the wrapped class' name, the specs, the
  validated sampling ratio, and the methods of the endpoint's base class
  (\<^verbatim>\<open>endpoints/\<close>, \<^verbatim>\<open>util/openai_util.py\<close> and \<^verbatim>\<open>util/tokens_util.py\<close> are not
  among the sources, so they are parameters).
\<close>

record monitored =
  openai_class_name :: string
  specs :: pydict
  sampling_ratio :: real
  get_full_analysis :: "pydict \<Rightarrow> pyval \<Rightarrow> pyval"
  get_clean_message :: "pydict \<Rightarrow> pydict"
  get_model_param :: "pydict \<Rightarrow> pyval"
  get_all_prompt_texts :: "pydict \<Rightarrow> pyval"
  get_all_response_texts :: "pydict \<Rightarrow> pyval"
  get_usage :: "pyval \<Rightarrow> pyval \<Rightarrow> pyval \<Rightarrow> pyval"

text \<open>The dict comprehension \<^verbatim>\<open>{x: kw[x] for x in kw if not x.startswith(MONA_ARGS_PREFIX)}\<close>.\<close>

definition without_mona_args :: "pydict \<Rightarrow> pydict" where
  "without_mona_args kw = filter (\<lambda>(x, v). \<not> startswith x MONA_ARGS_PREFIX) kw"

text \<open>
  \<^verbatim>\<open>MonitoredOpenAI._get_logging_message\<close>. The request input is a deep copy of the
  keyword arguments without the Mona ones; when the copy fails nothing else is done.
\<close>

definition MonitoredOpenAI_get_logging_message ::
  "monitored \<Rightarrow> pydict \<Rightarrow> real \<Rightarrow> bool \<Rightarrow> bool \<Rightarrow> real option \<Rightarrow> pyval \<Rightarrow> real \<Rightarrow>
   exn + pydict" where
  "MonitoredOpenAI_get_logging_message cls kwargs_param start_time is_exception is_async
     stream_start_time response now =
   (case deepcopy (without_mona_args kwargs_param) of
      Inl e \<Rightarrow> Inl e
    | Inr request_input \<Rightarrow>
        (let additional_data = dict_get kwargs_param ADDITIONAL_DATA_ARG_NAME EMPTY_DICT
         in Inr (get_logging_message (openai_class_name cls) request_input start_time
                   is_exception is_async stream_start_time response (get_full_analysis cls)
                   (get_clean_message cls) additional_data now)))"

section \<open>Collaborators outside the module\<close>

text \<open>
  \<^verbatim>\<open>call_non_blocking_sync_or_async\<close> (\<^verbatim>\<open>util/async_util.py\<close>): a coroutine function is
  awaited, any other function is called; in both branches the value is that of
  \<^verbatim>\<open>function(*func_args, **func_kwargs)\<close>.
\<close>

definition call_non_blocking_sync_or_async :: "('a \<Rightarrow> 'b \<Rightarrow> 'r) \<Rightarrow> 'a \<Rightarrow> 'b \<Rightarrow> 'r" where
  "call_non_blocking_sync_or_async function func_args func_kwargs =
     function func_args func_kwargs"

text \<open>
  One call of the export function (\<^verbatim>\<open>logger.log\<close> or \<^verbatim>\<open>logger.alog\<close>) with its three
  positional arguments. The loggers are not among the sources; following the Logger
  contract of the spec the export function returns normally, and its return value is
  dropped by every caller in the module. A run of the wrapper is described by its
  outcome together with the export calls it made, in order.
\<close>

record log_call =
  logged_message :: pydict
  logged_context_id :: pyval
  logged_export_timestamp :: pyval

type_synonym 'a logged = "(exn + 'a) \<times> log_call list"

text \<open>
  What one call reads from its surroundings: the three readings of \<^verbatim>\<open>time.time()\<close>
  (at the start of \<^verbatim>\<open>_inner_create\<close>, at the first chunk of a stream, inside
  \<^verbatim>\<open>_get_logging_message\<close>) and the random draw of the sampling gate.
\<close>

record call_env =
  time_at_start :: real
  time_at_first_chunk :: real
  time_at_log :: real
  random_draw :: real

text \<open>The wrapped \<^verbatim>\<open>create\<close>/\<^verbatim>\<open>acreate\<close>: its \<^verbatim>\<open>__name__\<close> and what a call returns or raises.\<close>

record target =
  fn_name :: string
  fn_call :: "pyval list \<Rightarrow> pydict \<Rightarrow> exn + pyval"

text \<open>
  Modelled from the spec: \<^verbatim>\<open>add_conditional_sampling\<close> (\<^verbatim>\<open>util/func_util.py\<close>) is not
  among the sources. SamplingGate: "draws one uniform random value in [0,1) and returns
  true iff the draw is less than ratio"; "the gate wraps the emission action itself".
  The draw is the argument \<open>draw\<close>.
\<close>

definition add_conditional_sampling ::
  "('a \<Rightarrow> unit logged) \<Rightarrow> real \<Rightarrow> real \<Rightarrow> 'a \<Rightarrow> unit logged" where
  "add_conditional_sampling inner_func ratio draw x =
     (if draw < ratio then inner_func x else (Inr (), []))"

section \<open>The wrapper's inner functions\<close>

text \<open>
  The default of the context id, \<^verbatim>\<open>response["id"] if response else None\<close>. Python
  evaluates it before \<^verbatim>\<open>kwargs.get\<close> looks at the key, so a response that is truthy and
  has no \<^verbatim>\<open>"id"\<close> raises here whether or not a context id was supplied.
\<close>

definition default_context_id :: "pyval \<Rightarrow> exn + pyval" where
  "default_context_id response =
     (if truthy response then subscript response ''id'' else Inr PNone)"

text \<open>
  \<^verbatim>\<open>_inner_log_message\<close>. The closure variables \<^verbatim>\<open>response\<close> and
  \<^verbatim>\<open>stream_start_time\<close> are read when it runs, so they are arguments here. The
  argument tuple is built first: the message (whose deep copy may raise), then
  \<^verbatim>\<open>kwargs.get(CONTEXT_ID_ARG_NAME, default)\<close> with its default (which may raise), then
  \<^verbatim>\<open>kwargs.get(EXPORT_TIMESTAMP_ARG_NAME, start_time)\<close>; only then is the export
  function called.
\<close>

definition inner_log_message ::
  "monitored \<Rightarrow> pydict \<Rightarrow> real \<Rightarrow> bool \<Rightarrow> real option \<Rightarrow> pyval \<Rightarrow> real \<Rightarrow> bool \<Rightarrow>
   unit logged" where
  "inner_log_message cls kwargs start_time is_async stream_start_time response now
     is_exception =
   (case MonitoredOpenAI_get_logging_message cls kwargs start_time is_exception is_async
           stream_start_time response now of
      Inl e \<Rightarrow> (Inl e, [])
    | Inr message \<Rightarrow>
        (case default_context_id response of
           Inl e \<Rightarrow> (Inl e, [])
         | Inr default_id \<Rightarrow>
             (Inr (),
              [\<lparr>logged_message = message,
                logged_context_id = dict_get kwargs CONTEXT_ID_ARG_NAME default_id,
                logged_export_timestamp =
                  dict_get kwargs EXPORT_TIMESTAMP_ARG_NAME (PFloat start_time)\<rparr>])))"

text \<open>\<^verbatim>\<open>log_message = add_conditional_sampling(_inner_log_message, sampling_ratio)\<close>.\<close>

definition log_message ::
  "monitored \<Rightarrow> call_env \<Rightarrow> pydict \<Rightarrow> bool \<Rightarrow> real option \<Rightarrow> pyval \<Rightarrow> bool \<Rightarrow> unit logged" where
  "log_message cls env kwargs is_async stream_start_time response =
     add_conditional_sampling
       (inner_log_message cls kwargs (time_at_start env) is_async stream_start_time response
          (time_at_log env))
       (sampling_ratio cls) (random_draw env)"

text \<open>\<^verbatim>\<open>inner_super_function\<close>: the target is called without the Mona arguments.\<close>

definition inner_super_function :: "target \<Rightarrow> pyval list \<Rightarrow> pydict \<Rightarrow> exn + pyval" where
  "inner_super_function super_function args kwargs =
     call_non_blocking_sync_or_async (fn_call super_function) args (without_mona_args kwargs)"

text \<open>\<^verbatim>\<open>inner_handle_exception\<close>.\<close>

definition inner_handle_exception :: "monitored \<Rightarrow> (bool \<Rightarrow> unit logged) \<Rightarrow> unit logged" where
  "inner_handle_exception cls log_fn =
     (if \<not> truthy (dict_get (specs cls) ''avoid_monitoring_exceptions'' (PBool False))
      then log_fn True
      else (Inr (), []))"

text \<open>
  \<^verbatim>\<open>except Exception: await inner_handle_exception(); raise\<close>: the bare \<^verbatim>\<open>raise\<close>
  re-raises the caught exception, unless the handler itself raised.
\<close>

definition handle_and_reraise :: "monitored \<Rightarrow> (bool \<Rightarrow> unit logged) \<Rightarrow> exn \<Rightarrow> 'a logged" where
  "handle_and_reraise cls log_fn e =
     (case inner_handle_exception cls log_fn of
        (Inl e', emitted) \<Rightarrow> (Inl e', emitted)
      | (Inr u, emitted) \<Rightarrow> (Inl e, emitted))"

section \<open>Streams\<close>

text \<open>
  The variables of \<^verbatim>\<open>_inner_create\<close> that \<^verbatim>\<open>_stream_done_callback\<close> captures.
\<close>

record stream_done_closure =
  closure_kwargs :: pydict
  closure_is_async :: bool

text \<open>
  Modelled from the spec: \<^verbatim>\<open>ResponseGatheringIterator\<close> (\<^verbatim>\<open>util/stream_util.py\<close>) is not
  among the sources. The object holds the wrapped source and the callback; its
  StreamState is the stream start time and the per-choice accumulators.
\<close>

record response_gathering_iterator =
  original_iterator :: pyval
  callback :: stream_done_closure

text \<open>
  Modelled from the spec: the layout of a chunk and of the synthesized response belongs
  to the endpoint classes, which are not among the sources: the choices of a chunk with
  their indices, the delta text of a choice
  (\<^verbatim>\<open>_get_stream_delta_text_from_choice\<close>), the final choice built from an index and
  its accumulated text (\<^verbatim>\<open>_get_final_choice\<close>), and the response "shaped like a
  non-streamed response" around the rebuilt choices.
\<close>

record stream_format =
  chunk_choices :: "pyval \<Rightarrow> (int \<times> pyval) list"
  get_stream_delta_text_from_choice :: "pyval \<Rightarrow> string"
  get_final_choice :: "int \<Rightarrow> string \<Rightarrow> pyval"
  response_of_choices :: "pyval list \<Rightarrow> pydict"

text \<open>
  Modelled from the spec (StreamAggregator): "for every chunk, extracts the partial delta
  text per choice index and appends it to that choice's accumulator".
\<close>

definition add_delta ::
  "stream_format \<Rightarrow> int \<times> pyval \<Rightarrow> (int \<times> string) list \<Rightarrow> (int \<times> string) list" where
  "add_delta fmt ic acc =
     (case ic of (i, choice) \<Rightarrow>
        AList.update i
          ((case map_of acc i of None \<Rightarrow> [] | Some t \<Rightarrow> t)
             @ get_stream_delta_text_from_choice fmt choice)
          acc)"

text \<open>
  Modelled from the spec (StreamAggregator): every chunk of the source is handed to the
  caller as it is; "on the first chunk yielded, records the current time as
  streamStartTime". The result is the chunks the caller received and the final
  StreamState.
\<close>

fun gather ::
  "stream_format \<Rightarrow> real \<Rightarrow> pyval list \<Rightarrow> real option \<times> (int \<times> string) list \<Rightarrow>
   pyval list \<times> (real option \<times> (int \<times> string) list)" where
  "gather fmt clock [] st = ([], st)"
| "gather fmt clock (chunk # rest) (t, acc) =
     (let t' = (case t of None \<Rightarrow> Some clock | Some t0 \<Rightarrow> Some t0);
          acc' = fold (add_delta fmt) (chunk_choices fmt chunk) acc;
          (yielded, final) = gather fmt clock rest (t', acc')
      in (chunk # yielded, final))"

text \<open>
  Modelled from the spec (StreamAggregator): "on exhaustion of the source sequence,
  synthesizes a final response shaped like a non-streamed response: choices rebuilt from
  accumulated per-choice text".
\<close>

definition final_response_of :: "stream_format \<Rightarrow> (int \<times> string) list \<Rightarrow> pydict" where
  "final_response_of fmt acc =
     response_of_choices fmt (map (\<lambda>(i, text). get_final_choice fmt i text) acc)"

text \<open>
  \<^verbatim>\<open>final_response | {"usage": get_usage(...)}\<close> in \<^verbatim>\<open>_stream_done_callback\<close>: the
  model parameter and the prompt texts are read from the whole \<^verbatim>\<open>kwargs\<close>, the response
  texts from the final response.
\<close>

definition response_with_usage :: "monitored \<Rightarrow> pydict \<Rightarrow> pydict \<Rightarrow> pyval" where
  "response_with_usage cls kwargs final_response =
     PDict (dict_union final_response
       [(''usage'',
         get_usage cls (get_model_param cls kwargs) (get_all_prompt_texts cls kwargs)
           (get_all_response_texts cls final_response))])"

text \<open>
  \<^verbatim>\<open>_stream_done_callback\<close>: the usage is added to the final response, the stream start
  time is stored, and the success record is logged.
\<close>

definition stream_done_callback ::
  "monitored \<Rightarrow> call_env \<Rightarrow> stream_done_closure \<Rightarrow> pydict \<Rightarrow> real option \<Rightarrow> unit logged" where
  "stream_done_callback cls env c final_response actual_stream_start_time =
   (let kwargs = closure_kwargs c;
        response = response_with_usage cls kwargs final_response;
        stream_start_time = actual_stream_start_time
    in log_message cls env kwargs (closure_is_async c) stream_start_time response False)"

text \<open>
  Modelled from the spec (StreamAggregator): a caller that iterates the returned object
  until the source is exhausted receives the chunks, after which the object "invokes the
  completion callback exactly once with (finalResponse, streamStartTime)". The result is
  what the caller received and what the callback did. The spec says nothing of a wrapped
  object that is not a sequence of chunks (\<open>None\<close>).
\<close>

definition exhaust ::
  "monitored \<Rightarrow> call_env \<Rightarrow> stream_format \<Rightarrow> response_gathering_iterator \<Rightarrow>
   (pyval list \<times> unit logged) option" where
  "exhaust cls env fmt it =
     (case original_iterator it of
        PIter chunks \<Rightarrow>
          (case gather fmt (time_at_first_chunk env) chunks (None, []) of
             (yielded, (t, acc)) \<Rightarrow>
               Some (yielded,
                     stream_done_callback cls env (callback it) (final_response_of fmt acc) t))
      | _ \<Rightarrow> None)"

section \<open>The wrapped call\<close>

datatype create_result = Response pyval | Stream response_gathering_iterator

text \<open>
  \<^verbatim>\<open>_inner_create\<close>. Until the stream callback runs, \<^verbatim>\<open>response\<close> and
  \<^verbatim>\<open>stream_start_time\<close> are \<^verbatim>\<open>None\<close>; on the non-streaming success path
  \<^verbatim>\<open>response\<close> is what the target returned.
\<close>

definition inner_create ::
  "monitored \<Rightarrow> call_env \<Rightarrow> target \<Rightarrow> pyval list \<Rightarrow> pydict \<Rightarrow> create_result logged" where
  "inner_create cls env super_function args kwargs =
   (let is_stream = dict_get kwargs ''stream'' (PBool False);
        is_async = (fn_name super_function = ''acreate'')
    in if \<not> truthy is_stream then
         (case inner_super_function super_function args kwargs of
            Inl e \<Rightarrow> handle_and_reraise cls (log_message cls env kwargs is_async None PNone) e
          | Inr response \<Rightarrow>
              (case log_message cls env kwargs is_async None response False of
                 (Inl e', emitted) \<Rightarrow> (Inl e', emitted)
               | (Inr u, emitted) \<Rightarrow> (Inr (Response response), emitted)))
       else
         (case inner_super_function super_function args kwargs of
            Inl e \<Rightarrow> handle_and_reraise cls (log_message cls env kwargs is_async None PNone) e
          | Inr source \<Rightarrow>
              (Inr (Stream \<lparr>original_iterator = source,
                            callback = \<lparr>closure_kwargs = kwargs,
                                        closure_is_async = is_async\<rparr>\<rparr>),
               [])))"

text \<open>\<^verbatim>\<open>acreate\<close> awaits \<^verbatim>\<open>_inner_create\<close> on the target's \<^verbatim>\<open>acreate\<close>.\<close>

definition acreate ::
  "monitored \<Rightarrow> call_env \<Rightarrow> target \<Rightarrow> pyval list \<Rightarrow> pydict \<Rightarrow> create_result logged" where
  "acreate cls env super_acreate args kwargs = inner_create cls env super_acreate args kwargs"

section \<open>The blocking entry point\<close>

text \<open>
  \<^verbatim>\<open>except RuntimeError\<close> catches \<^verbatim>\<open>RuntimeError\<close> and its subclasses; of the built-in
  exceptions these are \<^verbatim>\<open>NotImplementedError\<close> and \<^verbatim>\<open>RecursionError\<close>.
\<close>

definition is_RuntimeError :: "exn \<Rightarrow> bool" where
  "is_RuntimeError e =
     (kind e = ''RuntimeError'' \<or> kind e = ''NotImplementedError''
      \<or> kind e = ''RecursionError'')"

text \<open>
  \<^verbatim>\<open>run_in_an_event_loop\<close> (\<^verbatim>\<open>util/async_util.py\<close>). The three library calls are
  parameters: \<open>run\<close> is \<^verbatim>\<open>asyncio.run(coroutine)\<close>, \<open>run_until_complete\<close> is
  \<^verbatim>\<open>asyncio.get_event_loop().run_until_complete(coroutine)\<close> and \<open>apply_nest\<close> is
  \<^verbatim>\<open>nest_asyncio.apply()\<close>. Each acts on the state \<open>w\<close> of the interpreter, which holds
  the scheduler and the one coroutine object that all three attempts are given.
\<close>

definition run_in_an_event_loop ::
  "('w \<Rightarrow> (exn + 'r) \<times> 'w) \<Rightarrow> ('w \<Rightarrow> (exn + 'r) \<times> 'w) \<Rightarrow> ('w \<Rightarrow> 'w) \<Rightarrow> 'w \<Rightarrow>
   (exn + 'r) \<times> 'w" where
  "run_in_an_event_loop run run_until_complete apply_nest w =
     (case run w of
        (Inr r, w1) \<Rightarrow> (Inr r, w1)
      | (Inl e, w1) \<Rightarrow>
          if is_RuntimeError e then
            (case run_until_complete w1 of
               (Inr r, w2) \<Rightarrow> (Inr r, w2)
             | (Inl e2, w2) \<Rightarrow>
                 if is_RuntimeError e2 then run (apply_nest w2) else (Inl e2, w2))
          else (Inl e, w1))"

text \<open>
  The scheduler of the current thread, from the documentation of asyncio and
  nest_asyncio: there is no event loop, or one that is not running, or one that is
  running; \<^verbatim>\<open>nest_asyncio.apply()\<close> has been called or not. A coroutine object can be
  run once: \<open>task\<close> holds what running it will do (its outcome and the export calls it
  makes) until it has been run.
\<close>

datatype loop_state = No_Loop | Idle_Loop | Running_Loop

record 'r interpreter =
  loop :: loop_state
  nest_applied :: bool
  task :: "'r logged option"
  exported :: "log_call list"

text \<open>
  Running the coroutine object: the first time it does its work; a coroutine that has
  already been awaited raises \<^verbatim>\<open>RuntimeError\<close>.
\<close>

definition run_task :: "'r interpreter \<Rightarrow> (exn + 'r) \<times> 'r interpreter" where
  "run_task w =
     (case task w of
        Some (outcome, records) \<Rightarrow>
          (outcome, w\<lparr>task := None, exported := exported w @ records\<rparr>)
      | None \<Rightarrow>
          (Inl (Exn ''RuntimeError'' ''cannot reuse already awaited coroutine''), w))"

text \<open>
  \<^verbatim>\<open>asyncio.run\<close> "cannot be called when another asyncio event loop is running in the
  same thread" (it raises \<^verbatim>\<open>RuntimeError\<close> and leaves the coroutine alone); otherwise
  it runs the coroutine in a new event loop, closes that loop and leaves the thread
  without a current loop. With nest_asyncio applied it also runs inside a running loop.
\<close>

definition asyncio_run :: "'r interpreter \<Rightarrow> (exn + 'r) \<times> 'r interpreter" where
  "asyncio_run w =
     (if loop w = Running_Loop \<and> \<not> nest_applied w
      then (Inl (Exn ''RuntimeError''
                  ''asyncio.run() cannot be called from a running event loop''), w)
      else (case run_task w of
              (outcome, w') \<Rightarrow>
                (outcome, if loop w = Running_Loop then w' else w'\<lparr>loop := No_Loop\<rparr>)))"

text \<open>
  \<^verbatim>\<open>asyncio.get_event_loop().run_until_complete\<close>: without a current event loop
  \<^verbatim>\<open>get_event_loop\<close> raises \<^verbatim>\<open>RuntimeError\<close>; a loop that is already running raises
  \<^verbatim>\<open>RuntimeError\<close> unless nest_asyncio is applied; otherwise the loop runs the
  coroutine.
\<close>

definition loop_run_until_complete :: "'r interpreter \<Rightarrow> (exn + 'r) \<times> 'r interpreter" where
  "loop_run_until_complete w =
     (case loop w of
        No_Loop \<Rightarrow> (Inl (Exn ''RuntimeError'' ''There is no current event loop''), w)
      | Idle_Loop \<Rightarrow> run_task w
      | Running_Loop \<Rightarrow>
          if nest_applied w then run_task w
          else (Inl (Exn ''RuntimeError'' ''This event loop is already running''), w))"

definition nest_asyncio_apply :: "'r interpreter \<Rightarrow> 'r interpreter" where
  "nest_asyncio_apply w = w\<lparr>nest_applied := True\<rparr>"

text \<open>
  \<^verbatim>\<open>create\<close>: the coroutine \<^verbatim>\<open>cls._inner_create(logger.log, super().create, args,
  kwargs)\<close> is made and handed to \<^verbatim>\<open>run_in_an_event_loop\<close>. The first argument is
  the scheduler the caller is in; the result is what the caller gets and the export
  calls that were made.
\<close>

definition create ::
  "loop_state \<Rightarrow> monitored \<Rightarrow> call_env \<Rightarrow> target \<Rightarrow> pyval list \<Rightarrow> pydict \<Rightarrow>
   create_result logged" where
  "create ctx cls env super_create args kwargs =
     (case run_in_an_event_loop asyncio_run loop_run_until_complete nest_asyncio_apply
             \<lparr>loop = ctx, nest_applied = False,
              task = Some (inner_create cls env super_create args kwargs),
              exported = []\<rparr> of
        (outcome, w) \<Rightarrow> (outcome, exported w))"

section \<open>What the record claims speak of\<close>

text \<open>
  The message \<^verbatim>\<open>MonitoredOpenAI._get_logging_message\<close> hands to the message cleaner
  once the request input is copied: the module-level message on the keyword arguments
  without the Mona ones, with the cleaner left out. Used to state what a record
  contains before the endpoint's redaction.
\<close>

definition uncleaned_message ::
  "monitored \<Rightarrow> pydict \<Rightarrow> real \<Rightarrow> bool \<Rightarrow> bool \<Rightarrow> real option \<Rightarrow> pyval \<Rightarrow> real \<Rightarrow> pydict" where
  "uncleaned_message cls kwargs start_time is_exception is_async stream_start_time response now =
     get_logging_message (openai_class_name cls) (without_mona_args kwargs) start_time
       is_exception is_async stream_start_time response (get_full_analysis cls) (\<lambda>m. m)
       (dict_get kwargs ADDITIONAL_DATA_ARG_NAME EMPTY_DICT) now"

text \<open>
  The argument tuple \<^verbatim>\<open>_inner_log_message\<close> hands to the export function when the
  message is built and the default context id is \<open>default_id\<close>: the cleaned message,
  \<^verbatim>\<open>kwargs.get(CONTEXT_ID_ARG_NAME, default)\<close> and
  \<^verbatim>\<open>kwargs.get(EXPORT_TIMESTAMP_ARG_NAME, start_time)\<close>.
\<close>

definition export_call ::
  "monitored \<Rightarrow> pydict \<Rightarrow> real \<Rightarrow> bool \<Rightarrow> bool \<Rightarrow> real option \<Rightarrow> pyval \<Rightarrow> real \<Rightarrow> pyval \<Rightarrow>
   log_call" where
  "export_call cls kwargs start_time is_exception is_async stream_start_time response now
     default_id =
     \<lparr>logged_message =
        get_clean_message cls
          (uncleaned_message cls kwargs start_time is_exception is_async stream_start_time
             response now),
      logged_context_id = dict_get kwargs CONTEXT_ID_ARG_NAME default_id,
      logged_export_timestamp = dict_get kwargs EXPORT_TIMESTAMP_ARG_NAME (PFloat start_time)\<rparr>"

section \<open>What the stream claims speak of\<close>

text \<open>
  The choices of a whole stream in arrival order, the choice indices that occur in it,
  and, for one choice index, the concatenation of its delta texts in arrival order.
\<close>

definition stream_choices :: "stream_format \<Rightarrow> pyval list \<Rightarrow> (int \<times> pyval) list" where
  "stream_choices fmt chunks = concat (map (chunk_choices fmt) chunks)"

definition delta_texts :: "stream_format \<Rightarrow> (int \<times> pyval) list \<Rightarrow> int \<Rightarrow> string" where
  "delta_texts fmt choices i =
     concat (map (\<lambda>(j, choice). get_stream_delta_text_from_choice fmt choice)
               (filter (\<lambda>(j, choice). j = i) choices))"

text \<open>The distinct elements of a list in the order of their first occurrence.\<close>

fun first_seen :: "'a list \<Rightarrow> 'a list" where
  "first_seen [] = []"
| "first_seen (x # xs) = x # removeAll x (first_seen xs)"

text \<open>
  The synthesized response as the claim describes it: one final choice per choice index
  of the stream, built from the concatenation of that choice's delta texts.
\<close>

definition synthesized_response :: "stream_format \<Rightarrow> pyval list \<Rightarrow> pydict" where
  "synthesized_response fmt chunks =
     response_of_choices fmt
       (map (\<lambda>i. get_final_choice fmt i (delta_texts fmt (stream_choices fmt chunks) i))
          (first_seen (map fst (stream_choices fmt chunks))))"

section \<open>Concrete calls\<close>

text \<open>
  The scenarios of the spec as concrete values: a monitored completion class with the
  default specs (sampling ratio 1), the same class with
  \<^verbatim>\<open>avoid_monitoring_exceptions\<close> set and with sampling ratio 0, a target that returns
  a response, one that raises, and one that streams four chunks.
\<close>

definition keep_message :: "pydict \<Rightarrow> pydict" where
  "keep_message m = m"

definition no_analysis :: "pydict \<Rightarrow> pyval \<Rightarrow> pyval" where
  "no_analysis request_input response = PDict [(''analysed'', PBool True)]"

definition model_of :: "pydict \<Rightarrow> pyval" where
  "model_of kw = dict_get kw ''model'' PNone"

definition prompts_of :: "pydict \<Rightarrow> pyval" where
  "prompts_of kw = PList [dict_get kw ''prompt'' PNone]"

definition texts_of :: "pydict \<Rightarrow> pyval" where
  "texts_of response = dict_get response ''choices'' PNone"

definition usage_of :: "pyval \<Rightarrow> pyval \<Rightarrow> pyval \<Rightarrow> pyval" where
  "usage_of model prompt_texts response_texts =
     PDict [(''prompts'', prompt_texts), (''responses'', response_texts)]"

definition completion_cls :: monitored where
  "completion_cls =
     \<lparr>openai_class_name = ''Completion'', specs = [], sampling_ratio = 1,
      get_full_analysis = no_analysis, get_clean_message = keep_message,
      get_model_param = model_of, get_all_prompt_texts = prompts_of,
      get_all_response_texts = texts_of, get_usage = usage_of\<rparr>"

definition quiet_cls :: monitored where
  "quiet_cls = completion_cls\<lparr>specs := [(''avoid_monitoring_exceptions'', PBool True)]\<rparr>"

definition unsampled_cls :: monitored where
  "unsampled_cls = completion_cls\<lparr>sampling_ratio := 0\<rparr>"

definition a_call :: call_env where
  "a_call = \<lparr>time_at_start = 100, time_at_first_chunk = 101, time_at_log = 103,
             random_draw = 1 / 4\<rparr>"

text \<open>A call during which the wall clock is set back after the first chunk arrived.\<close>

definition clock_set_back :: call_env where
  "clock_set_back = \<lparr>time_at_start = 100, time_at_first_chunk = 102, time_at_log = 101,
             random_draw = 1 / 4\<rparr>"

definition returning :: "pyval list \<Rightarrow> pydict \<Rightarrow> exn + pyval" where
  "returning args kw = Inr (PDict [(''id'', PStr ''r1''), (''choices'', PList [])])"

definition raising :: "pyval list \<Rightarrow> pydict \<Rightarrow> exn + pyval" where
  "raising args kw = Inl (Exn ''RateLimitError'' ''slow down'')"

definition streaming :: "pyval list \<Rightarrow> pydict \<Rightarrow> exn + pyval" where
  "streaming args kw = Inr (PIter [PStr ''a'', PStr ''b'', PStr ''c'', PStr ''d''])"

definition create_ok :: target where
  "create_ok = \<lparr>fn_name = ''create'', fn_call = returning\<rparr>"

definition create_failing :: target where
  "create_failing = \<lparr>fn_name = ''create'', fn_call = raising\<rparr>"

definition create_streaming :: target where
  "create_streaming = \<lparr>fn_name = ''create'', fn_call = streaming\<rparr>"

text \<open>A stream layout in which every chunk carries one choice, of index 0.\<close>

definition one_choice :: "pyval \<Rightarrow> (int \<times> pyval) list" where
  "one_choice chunk = [(0, chunk)]"

definition text_of_choice :: "pyval \<Rightarrow> string" where
  "text_of_choice choice = (case choice of PStr t \<Rightarrow> t | _ \<Rightarrow> [])"

definition choice_of_text :: "int \<Rightarrow> string \<Rightarrow> pyval" where
  "choice_of_text i t = PDict [(''index'', PInt i), (''text'', PStr t)]"

definition completion_shape :: "pyval list \<Rightarrow> pydict" where
  "completion_shape choices = [(''id'', PStr ''r1''), (''choices'', PList choices)]"

definition one_choice_format :: stream_format where
  "one_choice_format =
     \<lparr>chunk_choices = one_choice, get_stream_delta_text_from_choice = text_of_choice,
      get_final_choice = choice_of_text, response_of_choices = completion_shape\<rparr>"

text \<open>
  A target that raises a \<^verbatim>\<open>RuntimeError\<close> of its own, as \<^verbatim>\<open>create\<close> and as
  \<^verbatim>\<open>acreate\<close>, and the failing target as \<^verbatim>\<open>acreate\<close>.
\<close>

definition raising_runtime :: "pyval list \<Rightarrow> pydict \<Rightarrow> exn + pyval" where
  "raising_runtime args kw = Inl (Exn ''RuntimeError'' ''boom'')"

definition create_broken :: target where
  "create_broken = \<lparr>fn_name = ''create'', fn_call = raising_runtime\<rparr>"

definition acreate_broken :: target where
  "acreate_broken = \<lparr>fn_name = ''acreate'', fn_call = raising_runtime\<rparr>"

definition acreate_failing :: target where
  "acreate_failing = \<lparr>fn_name = ''acreate'', fn_call = raising\<rparr>"

text \<open>
  A stream layout in which a chunk is a list of choices, each a dict with its index and
  its delta text, and a target that streams three chunks over the choices 0 and 1.
\<close>

definition index_of_choice :: "pyval \<Rightarrow> int" where
  "index_of_choice choice = (case dict_get (case choice of PDict d \<Rightarrow> d | _ \<Rightarrow> []) ''index'' PNone of
                               PInt i \<Rightarrow> i | _ \<Rightarrow> 0)"

definition indexed_choices :: "pyval \<Rightarrow> (int \<times> pyval) list" where
  "indexed_choices chunk =
     (case chunk of PList cs \<Rightarrow> map (\<lambda>c. (index_of_choice c, c)) cs | _ \<Rightarrow> [])"

definition delta_of_choice :: "pyval \<Rightarrow> string" where
  "delta_of_choice choice = (case dict_get (case choice of PDict d \<Rightarrow> d | _ \<Rightarrow> []) ''text'' PNone of
                               PStr t \<Rightarrow> t | _ \<Rightarrow> [])"

definition indexed_format :: stream_format where
  "indexed_format =
     \<lparr>chunk_choices = indexed_choices, get_stream_delta_text_from_choice = delta_of_choice,
      get_final_choice = choice_of_text, response_of_choices = completion_shape\<rparr>"

definition two_choice_chunks :: "pyval list" where
  "two_choice_chunks =
     [PList [choice_of_text 0 ''a'', choice_of_text 1 ''x''],
      PList [choice_of_text 0 ''b''],
      PList [choice_of_text 1 ''y'', choice_of_text 0 ''c'']]"

definition streaming_two :: "pyval list \<Rightarrow> pydict \<Rightarrow> exn + pyval" where
  "streaming_two args kw = Inr (PIter two_choice_chunks)"

definition create_streaming_two :: target where
  "create_streaming_two = \<lparr>fn_name = ''create'', fn_call = streaming_two\<rparr>"

section \<open>Facts about the model\<close>

text \<open>The message cleaner is applied last, to a message that does not depend on it.\<close>

lemma get_logging_message_cleaner:
  "get_logging_message api inp st ie ia sst resp ag cleaner ad now =
   cleaner (get_logging_message api inp st ie ia sst resp ag (\<lambda>m. m) ad now)"
  by (simp add: get_logging_message_def Let_def)

lemma deepcopy_cases:
  "deepcopy d = (if copyable (PDict d) then Inr d
                 else Inl (Exn ''TypeError'' ''cannot pickle generator object''))"
  by (simp add: deepcopy_def)

lemma deepcopy_Inr: "deepcopy d = Inr c \<Longrightarrow> c = d"
  by (simp add: deepcopy_def split: if_splits)

lemma message_is_cleaned:
  "MonitoredOpenAI_get_logging_message cls kw st ie ia sst resp now =
     (case deepcopy (without_mona_args kw) of
        Inl e \<Rightarrow> Inl e
      | Inr c \<Rightarrow> Inr (get_clean_message cls (uncleaned_message cls kw st ie ia sst resp now)))"
proof (cases "deepcopy (without_mona_args kw)")
  case (Inl e)
  then show ?thesis by (simp add: MonitoredOpenAI_get_logging_message_def)
next
  case (Inr c)
  then have "c = without_mona_args kw" by (rule deepcopy_Inr)
  then show ?thesis
    using Inr
    by (simp add: MonitoredOpenAI_get_logging_message_def uncleaned_message_def Let_def
        get_logging_message_cleaner [of _ _ _ _ _ _ _ _ "get_clean_message cls"])
qed

lemma map_of_message:
  "map_of (get_logging_message api inp st ie ia sst resp ag (\<lambda>m. m) ad now) =
   (let m0 = [''input'' \<mapsto> PDict inp, ''latency'' \<mapsto> PFloat (now - st),
              ''stream_start_latency'' \<mapsto> (case sst of Some t \<Rightarrow> PFloat (t - st) | None \<Rightarrow> PNone),
              ''is_exception'' \<mapsto> PBool ie, ''api_name'' \<mapsto> PStr api, ''is_async'' \<mapsto> PBool ia];
        m1 = (if truthy ad then m0(''additional_data'' \<mapsto> ad) else m0)
    in if truthy resp then m1(''response'' \<mapsto> resp, ''analysis'' \<mapsto> ag inp resp) else m1)"
  by (auto simp add: get_logging_message_def Let_def AList.update_conv' fun_eq_iff)

lemma map_of_uncleaned:
  "map_of (uncleaned_message cls kw st ie ia sst resp now) =
   map_of (get_logging_message (openai_class_name cls) (without_mona_args kw) st ie ia sst resp
             (get_full_analysis cls) (\<lambda>m. m)
             (dict_get kw ADDITIONAL_DATA_ARG_NAME EMPTY_DICT) now)"
  by (simp add: uncleaned_message_def)

text \<open>
  What a logging step does: the copy of the input fails, or the default context id
  cannot be read, or one export call is made.
\<close>

lemma inner_log_message_eq:
  "inner_log_message cls kw st ia sst resp now ie =
     (case deepcopy (without_mona_args kw) of
        Inl e \<Rightarrow> (Inl e, [])
      | Inr c \<Rightarrow>
          (case default_context_id resp of
             Inl e \<Rightarrow> (Inl e, [])
           | Inr d \<Rightarrow> (Inr (), [export_call cls kw st ie ia sst resp now d])))"
  by (simp add: inner_log_message_def message_is_cleaned export_call_def
      split: sum.splits)

lemma log_message_eq:
  "log_message cls env kw ia sst resp ie =
     (if random_draw env < sampling_ratio cls
      then inner_log_message cls kw (time_at_start env) ia sst resp (time_at_log env) ie
      else (Inr (), []))"
  by (simp add: log_message_def add_conditional_sampling_def)

lemma default_context_id_cases:
  "default_context_id PNone = Inr PNone"
  "map_of d ''id'' = Some v \<Longrightarrow> default_context_id (PDict d) = Inr v"
  by (auto simp add: default_context_id_def)

lemma inner_create_raises:
  assumes "inner_super_function tgt args kw = Inl e"
  shows "inner_create cls env tgt args kw =
     (if truthy (dict_get (specs cls) ''avoid_monitoring_exceptions'' (PBool False))
         \<or> \<not> random_draw env < sampling_ratio cls
      then (Inl e, [])
      else (case deepcopy (without_mona_args kw) of
              Inl e' \<Rightarrow> (Inl e', [])
            | Inr c \<Rightarrow>
                (Inl e,
                 [export_call cls kw (time_at_start env) True (fn_name tgt = ''acreate'') None
                    PNone (time_at_log env) PNone])))"
  using assms
  by (simp add: inner_create_def Let_def handle_and_reraise_def inner_handle_exception_def
      log_message_eq inner_log_message_eq default_context_id_cases split: sum.splits)

lemma inner_create_returns:
  assumes "\<not> truthy (dict_get kw ''stream'' (PBool False))"
      and "inner_super_function tgt args kw = Inr resp"
  shows "inner_create cls env tgt args kw =
     (if random_draw env < sampling_ratio cls
      then (case deepcopy (without_mona_args kw) of
              Inl e \<Rightarrow> (Inl e, [])
            | Inr c \<Rightarrow>
                (case default_context_id resp of
                   Inl e \<Rightarrow> (Inl e, [])
                 | Inr d \<Rightarrow>
                     (Inr (Response resp),
                      [export_call cls kw (time_at_start env) False
                         (fn_name tgt = ''acreate'') None resp (time_at_log env) d])))
      else (Inr (Response resp), []))"
  using assms
  by (simp add: inner_create_def Let_def log_message_eq inner_log_message_eq
      split: sum.splits)

lemma inner_create_streams:
  assumes "truthy (dict_get kw ''stream'' (PBool False))"
      and "inner_super_function tgt args kw = Inr source"
  shows "inner_create cls env tgt args kw =
     (Inr (Stream \<lparr>original_iterator = source,
                   callback = \<lparr>closure_kwargs = kw,
                               closure_is_async = (fn_name tgt = ''acreate'')\<rparr>\<rparr>), [])"
  using assms by (simp add: inner_create_def Let_def)

lemma stream_done_callback_eq:
  "stream_done_callback cls env c final t =
     log_message cls env (closure_kwargs c) (closure_is_async c) t
       (response_with_usage cls (closure_kwargs c) final) False"
  by (simp add: stream_done_callback_def Let_def)

lemma without_mona_args_keys:
  "\<forall>k \<in> fst ` set (without_mona_args kw). \<not> startswith k MONA_ARGS_PREFIX"
  by (auto simp add: without_mona_args_def)

lemma inner_create_emits:
  "\<forall>r \<in> set (snd (inner_create cls env tgt args kw)).
     \<exists>ie resp d. r = export_call cls kw (time_at_start env) ie (fn_name tgt = ''acreate'') None
                     resp (time_at_log env) d"
proof (cases "inner_super_function tgt args kw")
  case (Inl e)
  then show ?thesis by (auto simp add: inner_create_raises split: sum.splits if_splits)
next
  case (Inr resp)
  show ?thesis
  proof (cases "truthy (dict_get kw ''stream'' (PBool False))")
    case True
    then show ?thesis using Inr by (simp add: inner_create_streams)
  next
    case False
    then show ?thesis using Inr
      by (auto simp add: inner_create_returns split: sum.splits if_splits)
  qed
qed

lemma stream_done_callback_emits:
  "\<forall>r \<in> set (snd (stream_done_callback cls env c final t)).
     \<exists>resp d. r = export_call cls (closure_kwargs c) (time_at_start env) False
                   (closure_is_async c) t resp (time_at_log env) d"
  by (auto simp add: stream_done_callback_eq log_message_eq inner_log_message_eq
      split: sum.splits if_splits)

lemma export_call_depends:
  assumes "without_mona_args kw' = without_mona_args kw"
      and "map_of kw' CONTEXT_ID_ARG_NAME = map_of kw CONTEXT_ID_ARG_NAME"
      and "map_of kw' EXPORT_TIMESTAMP_ARG_NAME = map_of kw EXPORT_TIMESTAMP_ARG_NAME"
      and "map_of kw' ADDITIONAL_DATA_ARG_NAME = map_of kw ADDITIONAL_DATA_ARG_NAME"
  shows "export_call cls kw' st ie ia sst resp now d = export_call cls kw st ie ia sst resp now d"
  using assms
  by (simp add: export_call_def uncleaned_message_def dict_get_def)

text \<open>No logging step, and no run of the wrapper, makes more than one export call.\<close>

lemma inner_log_message_length:
  "length (snd (inner_log_message cls kw st ia sst resp now ie)) \<le> 1"
  by (simp add: inner_log_message_eq split: sum.splits)

lemma log_message_length:
  "length (snd (log_message cls env kw ia sst resp ie)) \<le> 1"
  using inner_log_message_length [of cls kw "time_at_start env" ia sst resp "time_at_log env" ie]
  by (simp add: log_message_eq)

lemma inner_create_length:
  "length (snd (inner_create cls env tgt args kw)) \<le> 1"
proof (cases "inner_super_function tgt args kw")
  case (Inl e)
  then show ?thesis by (simp add: inner_create_raises split: sum.splits)
next
  case (Inr resp)
  then show ?thesis
    by (cases "truthy (dict_get kw ''stream'' (PBool False))")
      (simp_all add: inner_create_returns inner_create_streams split: sum.splits)
qed

lemma stream_done_callback_length:
  "length (snd (stream_done_callback cls env c final t)) \<le> 1"
  using log_message_length [of cls env "closure_kwargs c" "closure_is_async c" t
      "response_with_usage cls (closure_kwargs c) final" False]
  by (simp add: stream_done_callback_eq)

text \<open>
  The stream model: every chunk is handed on, and the accumulators end up holding, for
  each choice index in order of first arrival, the concatenation of its delta texts.
\<close>

lemma stream_choices_Cons:
  "stream_choices fmt (chunk # rest) = chunk_choices fmt chunk @ stream_choices fmt rest"
  by (simp add: stream_choices_def)

lemma gather_eq:
  "gather fmt clock chunks (t, acc) =
     (chunks,
      (if chunks = [] then t else Some (case t of None \<Rightarrow> clock | Some t0 \<Rightarrow> t0)),
      fold (add_delta fmt) (stream_choices fmt chunks) acc)"
proof (induction chunks arbitrary: t acc)
  case Nil
  then show ?case by (simp add: stream_choices_def)
next
  case (Cons chunk rest)
  show ?case
    by (cases t) (simp_all add: Cons.IH stream_choices_Cons Let_def)
qed

lemma delta_texts_Nil: "delta_texts fmt [] i = []"
  by (simp add: delta_texts_def)

lemma delta_texts_Cons:
  "delta_texts fmt ((j, choice) # rest) i =
     (if j = i then get_stream_delta_text_from_choice fmt choice @ delta_texts fmt rest i
      else delta_texts fmt rest i)"
  by (simp add: delta_texts_def)

lemma map_of_add_delta:
  "map_of (add_delta fmt (j, choice) acc) i =
     (if i = j
      then Some ((case map_of acc j of None \<Rightarrow> [] | Some t \<Rightarrow> t)
                  @ get_stream_delta_text_from_choice fmt choice)
      else map_of acc i)"
  by (simp add: add_delta_def AList.update_conv')

lemma map_of_fold_add_delta:
  "map_of (fold (add_delta fmt) choices acc) i =
     (if i \<in> fst ` set choices \<or> i \<in> fst ` set acc
      then Some ((case map_of acc i of None \<Rightarrow> [] | Some t \<Rightarrow> t)
                  @ delta_texts fmt choices i)
      else None)"
proof (induction choices arbitrary: acc)
  case Nil
  then show ?case
    by (auto simp add: delta_texts_def map_of_eq_None_iff split: option.splits)
next
  case (Cons x rest)
  obtain j choice where x: "x = (j, choice)" by (cases x)
  have keys: "fst ` set (add_delta fmt (j, choice) acc) = insert j (fst ` set acc)"
    by (simp add: add_delta_def AList.dom_update)
  show ?case
    unfolding x
    by (simp add: Cons.IH keys map_of_add_delta delta_texts_Cons)
qed

lemma distinct_fold_add_delta:
  "distinct (map fst acc) \<Longrightarrow> distinct (map fst (fold (add_delta fmt) choices acc))"
proof (induction choices arbitrary: acc)
  case Nil
  then show ?case by simp
next
  case (Cons x rest)
  obtain j choice where x: "x = (j, choice)" by (cases x)
  have "distinct (map fst (add_delta fmt (j, choice) acc))"
    using Cons.prems by (simp add: add_delta_def AList.distinct_update)
  then show ?case unfolding x by (simp add: Cons.IH)
qed

lemma keys_add_delta:
  "map fst (add_delta fmt (j, choice) acc) =
     (if j \<in> set (map fst acc) then map fst acc else map fst acc @ [j])"
  by (simp add: add_delta_def AList.update_keys)

lemma keys_fold_add_delta:
  "map fst (fold (add_delta fmt) cs acc) =
     map fst acc @ filter (\<lambda>i. i \<notin> set (map fst acc)) (first_seen (map fst cs))"
proof (induction cs arbitrary: acc)
  case Nil
  then show ?case by simp
next
  case (Cons x rest)
  obtain j choice where x: "x = (j, choice)" by (cases x)
  show ?case
  proof (cases "j \<in> set (map fst acc)")
    case True
    have "filter (\<lambda>i. i \<notin> set (map fst acc)) (removeAll j (first_seen (map fst rest))) =
          filter (\<lambda>i. i \<notin> set (map fst acc)) (first_seen (map fst rest))"
      using True by (auto simp add: removeAll_filter_not_eq intro: filter_cong)
    then show ?thesis
      unfolding x using True by (simp add: Cons.IH keys_add_delta)
  next
    case False
    have "filter (\<lambda>i. i \<notin> set (map fst acc)) (removeAll j (first_seen (map fst rest))) =
          filter (\<lambda>i. i \<notin> set (map fst acc @ [j])) (first_seen (map fst rest))"
      by (auto simp add: removeAll_filter_not_eq intro: filter_cong)
    then show ?thesis
      unfolding x using False by (simp add: Cons.IH keys_add_delta)
  qed
qed

lemma alist_from_keys:
  "distinct (map fst al) \<Longrightarrow> map (\<lambda>k. (k, the (map_of al k))) (map fst al) = al"
proof (induction al)
  case Nil
  then show ?case by simp
next
  case (Cons p al)
  obtain k v where p: "p = (k, v)" by (cases p)
  have IH: "map (\<lambda>k'. (k', the (map_of al k'))) (map fst al) = al"
    using Cons by simp
  have tail: "map (\<lambda>k'. (k', the (map_of ((k, v) # al) k'))) (map fst al) =
        map (\<lambda>k'. (k', the (map_of al k'))) (map fst al)"
  proof (rule map_cong [OF refl])
    fix k' assume "k' \<in> set (map fst al)"
    then have "k' \<noteq> k" using Cons.prems p by auto
    then show "(k', the (map_of ((k, v) # al) k')) = (k', the (map_of al k'))" by simp
  qed
  have "map (\<lambda>k'. (k', the (map_of (p # al) k'))) (map fst (p # al)) =
        (k, v) # map (\<lambda>k'. (k', the (map_of ((k, v) # al) k'))) (map fst al)"
    unfolding p by simp
  also have "\<dots> = (k, v) # al" by (simp only: tail IH)
  finally show ?case unfolding p .
qed

lemma fold_add_delta:
  "fold (add_delta fmt) cs [] =
     map (\<lambda>i. (i, delta_texts fmt cs i)) (first_seen (map fst cs))"
proof -
  let ?acc = "fold (add_delta fmt) cs []"
  have keys: "map fst ?acc = first_seen (map fst cs)"
    by (simp add: keys_fold_add_delta)
  have dist: "distinct (map fst ?acc)"
    by (rule distinct_fold_add_delta) simp
  have seen: "set (first_seen xs) = set xs" for xs :: "int list"
    by (induction xs) auto
  have "?acc = map (\<lambda>k. (k, the (map_of ?acc k))) (map fst ?acc)"
    using alist_from_keys [OF dist] by simp
  also have "\<dots> = map (\<lambda>k. (k, the (map_of ?acc k))) (first_seen (map fst cs))"
    by (simp only: keys)
  also have "\<dots> = map (\<lambda>i. (i, delta_texts fmt cs i)) (first_seen (map fst cs))"
    by (rule map_cong [OF refl]) (simp add: map_of_fold_add_delta seen)
  finally show ?thesis .
qed

lemma response_with_usage_dict:
  "response_with_usage cls kw final =
     PDict (AList.update ''usage''
              (get_usage cls (get_model_param cls kw) (get_all_prompt_texts cls kw)
                 (get_all_response_texts cls final)) final)"
  by (simp add: response_with_usage_def dict_union_def)

lemma final_response_of_gathered:
  "final_response_of fmt (fold (add_delta fmt) (stream_choices fmt chunks) []) =
     synthesized_response fmt chunks"
  by (simp add: final_response_of_def synthesized_response_def fold_add_delta comp_def)

lemma exhaust_eq:
  "exhaust cls env fmt \<lparr>original_iterator = PIter chunks, callback = c\<rparr> =
     Some (chunks,
           stream_done_callback cls env c (synthesized_response fmt chunks)
             (if chunks = [] then None else Some (time_at_first_chunk env)))"
  by (simp add: exhaust_def gather_eq final_response_of_gathered)

text \<open>The blocking entry point: what the three attempts amount to.\<close>

lemma run_in_an_event_loop_first:
  assumes "run w = (outcome, w1)" and "\<forall>e. outcome = Inl e \<longrightarrow> \<not> is_RuntimeError e"
  shows "run_in_an_event_loop run run_until_complete apply_nest w = (outcome, w1)"
  using assms by (cases outcome) (simp_all add: run_in_an_event_loop_def)

lemma run_in_an_event_loop_second:
  assumes "run w = (Inl e, w1)" and "is_RuntimeError e"
      and "run_until_complete w1 = (outcome, w2)"
      and "\<forall>e2. outcome = Inl e2 \<longrightarrow> \<not> is_RuntimeError e2"
  shows "run_in_an_event_loop run run_until_complete apply_nest w = (outcome, w2)"
  using assms by (cases outcome) (simp_all add: run_in_an_event_loop_def)

lemma run_in_an_event_loop_third:
  assumes "run w = (Inl e, w1)" and "is_RuntimeError e"
      and "run_until_complete w1 = (Inl e2, w2)" and "is_RuntimeError e2"
  shows "run_in_an_event_loop run run_until_complete apply_nest w = run (apply_nest w2)"
  using assms by (simp add: run_in_an_event_loop_def)

lemmas asyncio_defs = run_in_an_event_loop_def asyncio_run_def loop_run_until_complete_def
  nest_asyncio_apply_def run_task_def is_RuntimeError_def create_def

text \<open>
  A task whose outcome is not a \<^verbatim>\<open>RuntimeError\<close> is run exactly once, whatever the
  scheduler the caller is in, and \<^verbatim>\<open>create\<close> gives what \<^verbatim>\<open>_inner_create\<close> gives.
\<close>

lemma create_runs_task_once:
  assumes "\<forall>e. fst (inner_create cls env tgt args kw) = Inl e \<longrightarrow> \<not> is_RuntimeError e"
  shows "create ctx cls env tgt args kw = inner_create cls env tgt args kw"
proof -
  obtain outcome records where r: "inner_create cls env tgt args kw = (outcome, records)"
    by (cases "inner_create cls env tgt args kw")
  show ?thesis
  proof (cases outcome)
    case (Inr v)
    then show ?thesis
      using r by (cases ctx) (simp_all add: asyncio_defs)
  next
    case (Inl e)
    then have "\<not> is_RuntimeError e" using assms r by simp
    then show ?thesis
      using r Inl by (cases ctx) (simp_all add: asyncio_defs)
  qed
qed

lemmas example_defs =
  completion_cls_def quiet_cls_def unsampled_cls_def a_call_def clock_set_back_def
  create_ok_def create_failing_def create_streaming_def returning_def raising_def
  streaming_def keep_message_def no_analysis_def model_of_def prompts_of_def texts_of_def
  usage_of_def one_choice_format_def one_choice_def text_of_choice_def choice_of_text_def
  completion_shape_def raising_runtime_def create_broken_def acreate_broken_def
  acreate_failing_def index_of_choice_def indexed_choices_def delta_of_choice_def
  indexed_format_def two_choice_chunks_def streaming_two_def create_streaming_two_def

lemmas const_defs = MONA_ARGS_PREFIX_def CONTEXT_ID_ARG_NAME_def
  EXPORT_TIMESTAMP_ARG_NAME_def ADDITIONAL_DATA_ARG_NAME_def EMPTY_DICT_def

lemmas run_defs = inner_create_def inner_super_function_def
  call_non_blocking_sync_or_async_def handle_and_reraise_def inner_handle_exception_def
  log_message_def add_conditional_sampling_def inner_log_message_def default_context_id_def
  export_call_def uncleaned_message_def MonitoredOpenAI_get_logging_message_def
  get_logging_message_def deepcopy_def without_mona_args_def startswith_def dict_get_def
  Let_def stream_done_callback_def response_with_usage_def dict_union_def exhaust_def
  final_response_of_def add_delta_def acreate_def

section \<open>The exception path\<close>

text \<open>
  C1. The claim is that the wrapper re-raises the target's exception unchanged after
  logging it. The suspending \<^verbatim>\<open>acreate\<close> does so. The blocking \<^verbatim>\<open>create\<close> does
  not when the target raises a \<^verbatim>\<open>RuntimeError\<close>: \<^verbatim>\<open>_inner_create\<close> logs the
  exception record and re-raises, \<^verbatim>\<open>run_in_an_event_loop\<close> catches the re-raised
  exception with \<^verbatim>\<open>except RuntimeError\<close> and submits the spent coroutine again, and
  the caller receives a \<^verbatim>\<open>RuntimeError\<close> with another message. And when a keyword
  argument cannot be deep-copied, the logging inside the \<^verbatim>\<open>except\<close> handler raises
  \<^verbatim>\<open>TypeError\<close>, which reaches the caller in place of the target's exception, with no
  record.
\<close>

theorem create_replaces_the_exception:
  "inner_super_function create_broken [] [(''prompt'', PStr ''hello'')] =
     Inl (Exn ''RuntimeError'' ''boom'')
   \<and> create No_Loop completion_cls a_call create_broken [] [(''prompt'', PStr ''hello'')] =
     (Inl (Exn ''RuntimeError'' ''cannot reuse already awaited coroutine''),
      [\<lparr>logged_message =
          [(''input'', PDict [(''prompt'', PStr ''hello'')]), (''latency'', PFloat 3),
           (''stream_start_latency'', PNone), (''is_exception'', PBool True),
           (''api_name'', PStr ''Completion''), (''is_async'', PBool False)],
        logged_context_id = PNone, logged_export_timestamp = PFloat 100\<rparr>])
   \<and> acreate completion_cls a_call acreate_broken [] [(''prompt'', PStr ''hello'')] =
     (Inl (Exn ''RuntimeError'' ''boom''),
      [\<lparr>logged_message =
          [(''input'', PDict [(''prompt'', PStr ''hello'')]), (''latency'', PFloat 3),
           (''stream_start_latency'', PNone), (''is_exception'', PBool True),
           (''api_name'', PStr ''Completion''), (''is_async'', PBool True)],
        logged_context_id = PNone, logged_export_timestamp = PFloat 100\<rparr>])
   \<and> inner_super_function acreate_failing [] [(''prompt'', PIter [])] =
     Inl (Exn ''RateLimitError'' ''slow down'')
   \<and> acreate completion_cls a_call acreate_failing [] [(''prompt'', PIter [])] =
     (Inl (Exn ''TypeError'' ''cannot pickle generator object''), [])"
  by (simp add: asyncio_defs run_defs example_defs const_defs)

section \<open>Record counts\<close>

text \<open>
  C4 (amended). With sampling ratio 1 (and a draw below 1): a run of the wrapper makes at
  most one export call and so does a run of the stream callback; a run that returns an
  iterator has made none, so an exception record and the callback's success record never
  belong to the same attempt. An attempt whose target raises ends in one exception
  record, or in none when \<^verbatim>\<open>avoid_monitoring_exceptions\<close> is set; a non-streaming
  attempt whose target returns ends in one success record; a streaming attempt emits
  nothing when the wrapper returns and one success record when its callback runs. The one
  record is missing where the logging step itself raises (the input cannot be copied, the
  default context id cannot be read).
\<close>

theorem one_record_per_attempt:
  assumes "sampling_ratio cls = 1" and "random_draw env < 1"
  shows "length (snd (inner_create cls env tgt args kwargs)) \<le> 1
       \<and> length (snd (stream_done_callback cls env c final_response stream_start)) \<le> 1
       \<and> (\<forall>it. fst (inner_create cls env tgt args kwargs) = Inr (Stream it) \<longrightarrow>
               snd (inner_create cls env tgt args kwargs) = [])
       \<and> (inner_super_function tgt args kwargs = Inl e \<longrightarrow>
            inner_create cls env tgt args kwargs =
              (if truthy (dict_get (specs cls) ''avoid_monitoring_exceptions'' (PBool False))
               then (Inl e, [])
               else (case deepcopy (without_mona_args kwargs) of
                       Inl e' \<Rightarrow> (Inl e', [])
                     | Inr request_input \<Rightarrow>
                         (Inl e,
                          [export_call cls kwargs (time_at_start env) True
                             (fn_name tgt = ''acreate'') None PNone (time_at_log env) PNone]))))
       \<and> (\<not> truthy (dict_get kwargs ''stream'' (PBool False))
            \<and> inner_super_function tgt args kwargs = Inr response \<longrightarrow>
            inner_create cls env tgt args kwargs =
              (case deepcopy (without_mona_args kwargs) of
                 Inl e' \<Rightarrow> (Inl e', [])
               | Inr request_input \<Rightarrow>
                   (case default_context_id response of
                      Inl e' \<Rightarrow> (Inl e', [])
                    | Inr default_id \<Rightarrow>
                        (Inr (Response response),
                         [export_call cls kwargs (time_at_start env) False
                            (fn_name tgt = ''acreate'') None response (time_at_log env)
                            default_id]))))
       \<and> (truthy (dict_get kwargs ''stream'' (PBool False))
            \<and> inner_super_function tgt args kwargs = Inr source \<longrightarrow>
            inner_create cls env tgt args kwargs =
              (Inr (Stream \<lparr>original_iterator = source,
                            callback = \<lparr>closure_kwargs = kwargs,
                                        closure_is_async = (fn_name tgt = ''acreate'')\<rparr>\<rparr>),
               []))
       \<and> stream_done_callback cls env c final_response stream_start =
            (case deepcopy (without_mona_args (closure_kwargs c)) of
               Inl e' \<Rightarrow> (Inl e', [])
             | Inr request_input \<Rightarrow>
                 (case default_context_id
                         (response_with_usage cls (closure_kwargs c) final_response) of
                    Inl e' \<Rightarrow> (Inl e', [])
                  | Inr default_id \<Rightarrow>
                      (Inr (),
                       [export_call cls (closure_kwargs c) (time_at_start env) False
                          (closure_is_async c) stream_start
                          (response_with_usage cls (closure_kwargs c) final_response)
                          (time_at_log env) default_id])))"
proof -
  have draw: "random_draw env < sampling_ratio cls" using assms by simp
  have a: "length (snd (inner_create cls env tgt args kwargs)) \<le> 1"
    by (rule inner_create_length)
  have b: "length (snd (stream_done_callback cls env c final_response stream_start)) \<le> 1"
    by (rule stream_done_callback_length)
  have it: "\<forall>it. fst (inner_create cls env tgt args kwargs) = Inr (Stream it) \<longrightarrow>
               snd (inner_create cls env tgt args kwargs) = []"
  proof (cases "inner_super_function tgt args kwargs")
    case (Inl e)
    then show ?thesis by (simp add: inner_create_raises split: sum.splits)
  next
    case (Inr r)
    then show ?thesis
      by (cases "truthy (dict_get kwargs ''stream'' (PBool False))")
        (simp_all add: inner_create_returns inner_create_streams split: sum.splits)
  qed
  have raises: "inner_super_function tgt args kwargs = Inl e \<longrightarrow>
            inner_create cls env tgt args kwargs =
              (if truthy (dict_get (specs cls) ''avoid_monitoring_exceptions'' (PBool False))
               then (Inl e, [])
               else (case deepcopy (without_mona_args kwargs) of
                       Inl e' \<Rightarrow> (Inl e', [])
                     | Inr request_input \<Rightarrow>
                         (Inl e,
                          [export_call cls kwargs (time_at_start env) True
                             (fn_name tgt = ''acreate'') None PNone (time_at_log env) PNone])))"
    using draw by (simp add: inner_create_raises)
  have returns: "\<not> truthy (dict_get kwargs ''stream'' (PBool False))
            \<and> inner_super_function tgt args kwargs = Inr response \<longrightarrow>
            inner_create cls env tgt args kwargs =
              (case deepcopy (without_mona_args kwargs) of
                 Inl e' \<Rightarrow> (Inl e', [])
               | Inr request_input \<Rightarrow>
                   (case default_context_id response of
                      Inl e' \<Rightarrow> (Inl e', [])
                    | Inr default_id \<Rightarrow>
                        (Inr (Response response),
                         [export_call cls kwargs (time_at_start env) False
                            (fn_name tgt = ''acreate'') None response (time_at_log env)
                            default_id])))"
    using draw by (simp add: inner_create_returns)
  have streams: "truthy (dict_get kwargs ''stream'' (PBool False))
            \<and> inner_super_function tgt args kwargs = Inr source \<longrightarrow>
            inner_create cls env tgt args kwargs =
              (Inr (Stream \<lparr>original_iterator = source,
                            callback = \<lparr>closure_kwargs = kwargs,
                                        closure_is_async = (fn_name tgt = ''acreate'')\<rparr>\<rparr>),
               [])"
    by (simp add: inner_create_streams)
  have cb: "stream_done_callback cls env c final_response stream_start =
            (case deepcopy (without_mona_args (closure_kwargs c)) of
               Inl e' \<Rightarrow> (Inl e', [])
             | Inr request_input \<Rightarrow>
                 (case default_context_id
                         (response_with_usage cls (closure_kwargs c) final_response) of
                    Inl e' \<Rightarrow> (Inl e', [])
                  | Inr default_id \<Rightarrow>
                      (Inr (),
                       [export_call cls (closure_kwargs c) (time_at_start env) False
                          (closure_is_async c) stream_start
                          (response_with_usage cls (closure_kwargs c) final_response)
                          (time_at_log env) default_id])))"
    using draw by (simp add: stream_done_callback_eq log_message_eq inner_log_message_eq)
  show ?thesis
    using a b it raises returns streams cb by blast
qed

text \<open>
  Scenarios B, A and C of the spec.
\<close>

theorem one_record_per_attempt_witness:
  "sampling_ratio completion_cls = 1 \<and> random_draw a_call < 1
   \<and> inner_super_function create_failing [] [(''prompt'', PStr ''hello'')] =
       Inl (Exn ''RateLimitError'' ''slow down'')
   \<and> map (\<lambda>r. map_of (logged_message r) ''is_exception'')
        (snd (inner_create completion_cls a_call create_failing [] [(''prompt'', PStr ''hello'')]))
       = [Some (PBool True)]
   \<and> \<not> truthy (dict_get [(''prompt'', PStr ''hello'')] ''stream'' (PBool False))
   \<and> inner_super_function create_ok [] [(''prompt'', PStr ''hello'')] =
       Inr (PDict [(''id'', PStr ''r1''), (''choices'', PList [])])
   \<and> map (\<lambda>r. map_of (logged_message r) ''is_exception'')
        (snd (inner_create completion_cls a_call create_ok [] [(''prompt'', PStr ''hello'')]))
       = [Some (PBool False)]
   \<and> truthy (dict_get [(''prompt'', PStr ''hello''), (''stream'', PBool True)] ''stream''
               (PBool False))
   \<and> inner_super_function create_streaming []
         [(''prompt'', PStr ''hello''), (''stream'', PBool True)] =
       Inr (PIter [PStr ''a'', PStr ''b'', PStr ''c'', PStr ''d''])
   \<and> snd (inner_create completion_cls a_call create_streaming []
              [(''prompt'', PStr ''hello''), (''stream'', PBool True)]) = []
   \<and> map (\<lambda>r. map_of (logged_message r) ''is_exception'')
        (snd (stream_done_callback completion_cls a_call
                \<lparr>closure_kwargs = [(''prompt'', PStr ''hello''), (''stream'', PBool True)],
                 closure_is_async = False\<rparr>
                (completion_shape [choice_of_text 0 ''abcd'']) (Some 101)))
       = [Some (PBool False)]"
proof -
  have h1: "sampling_ratio completion_cls = 1" and h2: "random_draw a_call < 1"
    by (simp_all add: example_defs)
  have h3: "inner_super_function create_failing [] [(''prompt'', PStr ''hello'')] =
       Inl (Exn ''RateLimitError'' ''slow down'')"
    and h4: "\<not> truthy (dict_get [(''prompt'', PStr ''hello'')] ''stream'' (PBool False))"
    and h5: "inner_super_function create_ok [] [(''prompt'', PStr ''hello'')] =
       Inr (PDict [(''id'', PStr ''r1''), (''choices'', PList [])])"
    and h6: "truthy (dict_get [(''prompt'', PStr ''hello''), (''stream'', PBool True)] ''stream''
               (PBool False))"
    and h7: "inner_super_function create_streaming []
         [(''prompt'', PStr ''hello''), (''stream'', PBool True)] =
       Inr (PIter [PStr ''a'', PStr ''b'', PStr ''c'', PStr ''d''])"
    by (simp_all add: inner_super_function_def call_non_blocking_sync_or_async_def
        example_defs dict_get_def without_mona_args_def startswith_def const_defs)
  have a: "map (\<lambda>r. map_of (logged_message r) ''is_exception'')
        (snd (inner_create completion_cls a_call create_failing [] [(''prompt'', PStr ''hello'')]))
       = [Some (PBool True)]"
    using h3 one_record_per_attempt [OF h1 h2, where tgt = create_failing and args = "[]"
        and kwargs = "[(''prompt'', PStr ''hello'')]"
        and e = "Exn ''RateLimitError'' ''slow down''"]
    by (simp add: run_defs example_defs const_defs)
  have b: "map (\<lambda>r. map_of (logged_message r) ''is_exception'')
        (snd (inner_create completion_cls a_call create_ok [] [(''prompt'', PStr ''hello'')]))
       = [Some (PBool False)]"
    using h4 h5 one_record_per_attempt [OF h1 h2, where tgt = create_ok and args = "[]"
        and kwargs = "[(''prompt'', PStr ''hello'')]"
        and response = "PDict [(''id'', PStr ''r1''), (''choices'', PList [])]"]
    by (simp add: run_defs example_defs const_defs)
  have c: "snd (inner_create completion_cls a_call create_streaming []
              [(''prompt'', PStr ''hello''), (''stream'', PBool True)]) = []
   \<and> map (\<lambda>r. map_of (logged_message r) ''is_exception'')
        (snd (stream_done_callback completion_cls a_call
                \<lparr>closure_kwargs = [(''prompt'', PStr ''hello''), (''stream'', PBool True)],
                 closure_is_async = False\<rparr>
                (completion_shape [choice_of_text 0 ''abcd'']) (Some 101)))
       = [Some (PBool False)]"
    using h6 h7 one_record_per_attempt [OF h1 h2, where tgt = create_streaming and args = "[]"
        and kwargs = "[(''prompt'', PStr ''hello''), (''stream'', PBool True)]"
        and c = "\<lparr>closure_kwargs = [(''prompt'', PStr ''hello''), (''stream'', PBool True)],
                 closure_is_async = False\<rparr>"
        and final_response = "completion_shape [choice_of_text 0 ''abcd'']"
        and stream_start = "Some 101"
        and source = "PIter [PStr ''a'', PStr ''b'', PStr ''c'', PStr ''d'']"]
    by (simp add: run_defs example_defs const_defs)
  show ?thesis using h1 h2 h3 h4 h5 h6 h7 a b c by blast
qed

text \<open>
  Scenario D of the spec: with sampling ratio 1 and the suppression flag set, a failing
  attempt emits no record at all.
\<close>

theorem no_record_when_exceptions_unmonitored:
  "sampling_ratio quiet_cls = 1
   \<and> inner_create quiet_cls a_call create_failing [] [(''prompt'', PStr ''hello'')] =
       (Inl (Exn ''RateLimitError'' ''slow down''), [])"
  by (simp add: run_defs example_defs const_defs)

section \<open>The fields of the message\<close>

text \<open>
  C5 (amended). The message handed to the cleaner always has the key
  \<^verbatim>\<open>stream_start_latency\<close>: its value is the stream start time minus the start time
  when a stream start time is present, and \<^verbatim>\<open>None\<close> when there is none.
\<close>

theorem stream_start_latency_field:
  "get_logging_message api_name request_input start_time is_exception is_async
     stream_start_time response analysis_getter message_cleaner additional_data now =
   message_cleaner
     (get_logging_message api_name request_input start_time is_exception is_async
        stream_start_time response analysis_getter (\<lambda>m. m) additional_data now)
   \<and> map_of
       (get_logging_message api_name request_input start_time is_exception is_async
          stream_start_time response analysis_getter (\<lambda>m. m) additional_data now)
       ''stream_start_latency'' =
     Some (case stream_start_time of
             Some t \<Rightarrow> PFloat (t - start_time)
           | None \<Rightarrow> PNone)"
  using get_logging_message_cleaner [of api_name request_input start_time is_exception
      is_async stream_start_time response analysis_getter message_cleaner additional_data now]
  by (simp add: map_of_message Let_def)

text \<open>
  A non-streamed call (no stream start time): the key is in the message, not left out.
\<close>

theorem stream_start_latency_not_omitted:
  "''stream_start_latency'' \<in>
     fst ` set (get_logging_message ''Completion'' [(''prompt'', PStr ''hello'')] 100 False
                  False None (PDict [(''id'', PStr ''r1'')]) no_analysis keep_message
                  (PDict []) 103)"
  by (simp add: get_logging_message_def Let_def keep_message_def no_analysis_def)

text \<open>
  C6 (amended). Every record the stream callback emits carries the message built from
  the stream start time it was given; in such a message both latencies are present, and
  the stream start latency is at most the latency provided the clock reading taken when
  the message is built is not earlier than the stream start time.
\<close>

theorem stream_start_latency_le_latency:
  assumes "stream_start \<le> time_at_log env"
  shows "(\<forall>r \<in> set (snd (stream_done_callback cls env c final_response (Some stream_start))).
            logged_message r =
            get_clean_message cls
              (uncleaned_message cls (closure_kwargs c) (time_at_start env) False
                 (closure_is_async c) (Some stream_start)
                 (response_with_usage cls (closure_kwargs c) final_response)
                 (time_at_log env)))
       \<and> map_of (uncleaned_message cls kwargs start_time is_exception is_async
                   (Some stream_start) response (time_at_log env)) ''latency'' =
           Some (PFloat (time_at_log env - start_time))
       \<and> map_of (uncleaned_message cls kwargs start_time is_exception is_async
                   (Some stream_start) response (time_at_log env)) ''stream_start_latency'' =
           Some (PFloat (stream_start - start_time))
       \<and> stream_start - start_time \<le> time_at_log env - start_time"
proof -
  have "\<forall>r \<in> set (snd (stream_done_callback cls env c final_response (Some stream_start))).
            logged_message r =
            get_clean_message cls
              (uncleaned_message cls (closure_kwargs c) (time_at_start env) False
                 (closure_is_async c) (Some stream_start)
                 (response_with_usage cls (closure_kwargs c) final_response)
                 (time_at_log env))"
    by (auto simp add: stream_done_callback_eq log_message_eq inner_log_message_eq
        export_call_def split: sum.splits if_splits)
  then show ?thesis
    using assms by (simp add: map_of_uncleaned map_of_message Let_def)
qed

text \<open>
  Scenario C of the spec, with clock readings 100, 101 and 103.
\<close>

theorem stream_start_latency_le_latency_witness:
  "time_at_first_chunk a_call \<le> time_at_log a_call
   \<and> map (\<lambda>r. (map_of (logged_message r) ''stream_start_latency'',
                map_of (logged_message r) ''latency''))
        (snd (stream_done_callback completion_cls a_call
               \<lparr>closure_kwargs = [(''prompt'', PStr ''hello''), (''stream'', PBool True)],
                closure_is_async = False\<rparr>
               (completion_shape [choice_of_text 0 ''abcd''])
               (Some (time_at_first_chunk a_call)))) =
      [(Some (PFloat 1), Some (PFloat 3))]"
proof -
  have h: "time_at_first_chunk a_call \<le> time_at_log a_call" by (simp add: a_call_def)
  have e: "stream_done_callback completion_cls a_call
               \<lparr>closure_kwargs = [(''prompt'', PStr ''hello''), (''stream'', PBool True)],
                closure_is_async = False\<rparr>
               (completion_shape [choice_of_text 0 ''abcd''])
               (Some (time_at_first_chunk a_call)) =
     (Inr (),
      [export_call completion_cls [(''prompt'', PStr ''hello''), (''stream'', PBool True)]
         (time_at_start a_call) False False (Some (time_at_first_chunk a_call))
         (response_with_usage completion_cls
            [(''prompt'', PStr ''hello''), (''stream'', PBool True)]
            (completion_shape [choice_of_text 0 ''abcd'']))
         (time_at_log a_call) (PStr ''r1'')])"
    by (simp add: stream_done_callback_eq log_message_eq inner_log_message_eq
        default_context_id_def response_with_usage_def dict_union_def completion_shape_def
        deepcopy_def without_mona_args_def startswith_def const_defs)
       (simp add: completion_cls_def a_call_def)
  show ?thesis
    using h stream_start_latency_le_latency [OF h, of completion_cls
        "\<lparr>closure_kwargs = [(''prompt'', PStr ''hello''), (''stream'', PBool True)],
          closure_is_async = False\<rparr>" "completion_shape [choice_of_text 0 ''abcd'']"
        "[(''prompt'', PStr ''hello''), (''stream'', PBool True)]" "time_at_start a_call" False
        False "response_with_usage completion_cls
            [(''prompt'', PStr ''hello''), (''stream'', PBool True)]
            (completion_shape [choice_of_text 0 ''abcd''])"]
    unfolding e
    by (simp add: completion_cls_def keep_message_def) (simp add: a_call_def)
qed

text \<open>
  \<^verbatim>\<open>time.time()\<close> is the wall clock: set back between the first chunk (102) and the
  building of the message (101), it gives a stream start latency of 2 and a latency of 1.
\<close>

theorem stream_start_latency_above_latency:
  "map (\<lambda>r. (map_of (logged_message r) ''stream_start_latency'',
              map_of (logged_message r) ''latency''))
     (snd (stream_done_callback completion_cls clock_set_back
            \<lparr>closure_kwargs = [(''prompt'', PStr ''hello''), (''stream'', PBool True)],
             closure_is_async = False\<rparr>
            (completion_shape [choice_of_text 0 ''abcd'']) (Some 102))) =
   [(Some (PFloat 2), Some (PFloat 1))]
   \<and> \<not> (2::real) \<le> 1"
  by (simp add: stream_done_callback_eq log_message_eq inner_log_message_eq
      default_context_id_def response_with_usage_def dict_union_def completion_shape_def
      export_call_def deepcopy_def without_mona_args_def startswith_def const_defs
      map_of_uncleaned map_of_message Let_def)
     (simp add: completion_cls_def clock_set_back_def keep_message_def map_of_uncleaned
      map_of_message Let_def)

text \<open>
  C8 (amended). A non-empty \<^verbatim>\<open>MONA_additional_data\<close> mapping is the
  \<^verbatim>\<open>additional_data\<close> field of the message handed to the cleaner; an empty mapping
  leaves the message without that field. The message is the cleaned one whenever the
  input can be copied.
\<close>

theorem additional_data_field:
  assumes "map_of kwargs ADDITIONAL_DATA_ARG_NAME = Some (PDict d)"
  shows "MonitoredOpenAI_get_logging_message cls kwargs start_time is_exception is_async
           stream_start_time response now =
         (case deepcopy (without_mona_args kwargs) of
            Inl e \<Rightarrow> Inl e
          | Inr request_input \<Rightarrow>
              Inr (get_clean_message cls
                     (uncleaned_message cls kwargs start_time is_exception is_async
                        stream_start_time response now)))
       \<and> map_of (uncleaned_message cls kwargs start_time is_exception is_async
                   stream_start_time response now) ''additional_data'' =
           (if d = [] then None else Some (PDict d))"
  using assms message_is_cleaned [of cls kwargs start_time is_exception is_async
      stream_start_time response now]
  by (simp add: map_of_uncleaned map_of_message Let_def dict_get_def)

theorem additional_data_field_witness:
  "map_of [(''prompt'', PStr ''hello''),
           (''MONA_additional_data'', PDict [(''template'', PStr ''t7'')])]
     ADDITIONAL_DATA_ARG_NAME = Some (PDict [(''template'', PStr ''t7'')])
   \<and> map_of (uncleaned_message completion_cls
               [(''prompt'', PStr ''hello''),
                (''MONA_additional_data'', PDict [(''template'', PStr ''t7'')])]
               100 False False None (PDict [(''id'', PStr ''r1'')]) 103) ''additional_data'' =
       Some (PDict [(''template'', PStr ''t7'')])
   \<and> MonitoredOpenAI_get_logging_message completion_cls
         [(''prompt'', PStr ''hello''),
          (''MONA_additional_data'', PDict [(''template'', PStr ''t7'')])]
         100 True False None PNone 103 =
       Inr [(''input'', PDict [(''prompt'', PStr ''hello'')]), (''latency'', PFloat 3),
            (''stream_start_latency'', PNone), (''is_exception'', PBool True),
            (''api_name'', PStr ''Completion''), (''is_async'', PBool False),
            (''additional_data'', PDict [(''template'', PStr ''t7'')])]"
proof -
  have h: "map_of [(''prompt'', PStr ''hello''),
           (''MONA_additional_data'', PDict [(''template'', PStr ''t7'')])]
     ADDITIONAL_DATA_ARG_NAME = Some (PDict [(''template'', PStr ''t7'')])"
    by (simp add: const_defs)
  have m: "MonitoredOpenAI_get_logging_message completion_cls
         [(''prompt'', PStr ''hello''),
          (''MONA_additional_data'', PDict [(''template'', PStr ''t7'')])]
         100 True False None PNone 103 =
       Inr [(''input'', PDict [(''prompt'', PStr ''hello'')]), (''latency'', PFloat 3),
            (''stream_start_latency'', PNone), (''is_exception'', PBool True),
            (''api_name'', PStr ''Completion''), (''is_async'', PBool False),
            (''additional_data'', PDict [(''template'', PStr ''t7'')])]"
    by (simp add: run_defs example_defs const_defs)
  show ?thesis
    using h m additional_data_field [OF h, of completion_cls 100 False False None
        "PDict [(''id'', PStr ''r1'')]" 103]
    by simp
qed

text \<open>
  An empty mapping is supplied and the message has no \<^verbatim>\<open>additional_data\<close> field.
\<close>

theorem empty_additional_data_dropped:
  "map_of [(''prompt'', PStr ''hello''), (''MONA_additional_data'', PDict [])]
     ADDITIONAL_DATA_ARG_NAME = Some (PDict [])
   \<and> map_of (uncleaned_message completion_cls
               [(''prompt'', PStr ''hello''), (''MONA_additional_data'', PDict [])]
               100 False False None (PDict [(''id'', PStr ''r1'')]) 103) ''additional_data'' =
       None"
  by (simp add: map_of_uncleaned map_of_message Let_def dict_get_def const_defs)

section \<open>Context id and export timestamp\<close>

text \<open>
  C10. Without a \<^verbatim>\<open>MONA_context_id\<close> argument the context id given to the export
  function is the \<^verbatim>\<open>"id"\<close> of the response when there is a response with that field,
  and \<^verbatim>\<open>None\<close> when the response is \<^verbatim>\<open>None\<close> (the exception path); without a
  \<^verbatim>\<open>MONA_export_timestamp\<close> argument the export timestamp is the start time. The
  export function is called whenever the message can be built.
\<close>

theorem default_context_id_and_export_timestamp:
  "(map_of kwargs CONTEXT_ID_ARG_NAME = None \<and> map_of d ''id'' = Some v \<longrightarrow>
      inner_log_message cls kwargs start_time is_async stream_start_time (PDict d) now
        is_exception =
      (case MonitoredOpenAI_get_logging_message cls kwargs start_time is_exception is_async
              stream_start_time (PDict d) now of
         Inl e \<Rightarrow> (Inl e, [])
       | Inr message \<Rightarrow>
           (Inr (),
            [\<lparr>logged_message = message, logged_context_id = v,
              logged_export_timestamp =
                dict_get kwargs EXPORT_TIMESTAMP_ARG_NAME (PFloat start_time)\<rparr>])))
   \<and> (map_of kwargs CONTEXT_ID_ARG_NAME = None \<longrightarrow>
      inner_log_message cls kwargs start_time is_async stream_start_time PNone now
        is_exception =
      (case MonitoredOpenAI_get_logging_message cls kwargs start_time is_exception is_async
              stream_start_time PNone now of
         Inl e \<Rightarrow> (Inl e, [])
       | Inr message \<Rightarrow>
           (Inr (),
            [\<lparr>logged_message = message, logged_context_id = PNone,
              logged_export_timestamp =
                dict_get kwargs EXPORT_TIMESTAMP_ARG_NAME (PFloat start_time)\<rparr>])))
   \<and> (map_of kwargs EXPORT_TIMESTAMP_ARG_NAME = None \<longrightarrow>
      (\<forall>r \<in> set (snd (inner_log_message cls kwargs start_time is_async stream_start_time
                        response now is_exception)).
         logged_export_timestamp r = PFloat start_time))"
  by (auto simp add: inner_log_message_def default_context_id_cases dict_get_def
      split: sum.splits)

theorem default_context_id_and_export_timestamp_witness:
  "map_of [(''prompt'', PStr ''hello'')] CONTEXT_ID_ARG_NAME = None
   \<and> map_of [(''prompt'', PStr ''hello'')] EXPORT_TIMESTAMP_ARG_NAME = None
   \<and> map_of [(''id'', PStr ''r1''), (''choices'', PList [])] ''id'' = Some (PStr ''r1'')
   \<and> map (\<lambda>r. (logged_context_id r, logged_export_timestamp r))
        (snd (inner_log_message completion_cls [(''prompt'', PStr ''hello'')] 100 False None
                (PDict [(''id'', PStr ''r1''), (''choices'', PList [])]) 103 False)) =
      [(PStr ''r1'', PFloat 100)]
   \<and> map (\<lambda>r. (logged_context_id r, logged_export_timestamp r))
        (snd (inner_log_message completion_cls [(''prompt'', PStr ''hello'')] 100 False None
                PNone 103 True)) =
      [(PNone, PFloat 100)]"
proof -
  have h1: "map_of [(''prompt'', PStr ''hello'')] CONTEXT_ID_ARG_NAME = None"
    and h2: "map_of [(''prompt'', PStr ''hello'')] EXPORT_TIMESTAMP_ARG_NAME = None"
    and h3: "map_of [(''id'', PStr ''r1''), (''choices'', PList [])] ''id'' = Some (PStr ''r1'')"
    by (simp_all add: const_defs)
  have c: "deepcopy (without_mona_args [(''prompt'', PStr ''hello'')]) =
             Inr [(''prompt'', PStr ''hello'')]"
    by (simp add: deepcopy_def without_mona_args_def startswith_def const_defs)
  show ?thesis
    using h1 h2 h3
      default_context_id_and_export_timestamp [of "[(''prompt'', PStr ''hello'')]"
        "[(''id'', PStr ''r1''), (''choices'', PList [])]" "PStr ''r1''" completion_cls 100
        False None 103 False "PDict [(''id'', PStr ''r1''), (''choices'', PList [])]"]
      default_context_id_and_export_timestamp [of "[(''prompt'', PStr ''hello'')]"
        "[(''id'', PStr ''r1''), (''choices'', PList [])]" "PStr ''r1''" completion_cls 100
        False None 103 True PNone]
    by (simp add: message_is_cleaned c dict_get_def)
qed

section \<open>Sampling\<close>




section \<open>The Mona arguments\<close>

text \<open>
  C3 (amended). Keys that start with \<^verbatim>\<open>MONA_\<close> are never among the keyword arguments
  forwarded to the target and never among the keys of the \<^verbatim>\<open>input\<close> field of the
  message handed to the cleaner; every record the wrapper or the stream callback emits
  is built this way. The values of \<^verbatim>\<open>MONA_context_id\<close> and
  \<^verbatim>\<open>MONA_export_timestamp\<close> are the context id and the export timestamp given to the
  export function, and a truthy \<^verbatim>\<open>MONA_additional_data\<close> is the
  \<^verbatim>\<open>additional_data\<close> field. Nothing else of the \<^verbatim>\<open>MONA_\<close> keys reaches the export
  call: two argument dicts that agree on the other keys and on these three give the same
  export call.
\<close>

theorem mona_args_stripped_and_routed:
  "inner_super_function tgt args kwargs = fn_call tgt args (without_mona_args kwargs)
   \<and> (\<forall>k \<in> fst ` set (without_mona_args kwargs). \<not> startswith k MONA_ARGS_PREFIX)
   \<and> (\<forall>r \<in> set (snd (inner_create cls env tgt args kwargs)).
        \<exists>ie resp d. r = export_call cls kwargs (time_at_start env) ie
                         (fn_name tgt = ''acreate'') None resp (time_at_log env) d)
   \<and> (\<forall>r \<in> set (snd (stream_done_callback cls env c final_response stream_start)).
        \<exists>resp d. r = export_call cls (closure_kwargs c) (time_at_start env) False
                      (closure_is_async c) stream_start resp (time_at_log env) d)
   \<and> logged_message
       (export_call cls kwargs start_time is_exception is_async stream_start_time response
          now default_id) =
     get_clean_message cls
       (uncleaned_message cls kwargs start_time is_exception is_async stream_start_time
          response now)
   \<and> map_of (uncleaned_message cls kwargs start_time is_exception is_async stream_start_time
               response now) ''input'' = Some (PDict (without_mona_args kwargs))
   \<and> (map_of kwargs CONTEXT_ID_ARG_NAME = Some cid \<longrightarrow>
        logged_context_id
          (export_call cls kwargs start_time is_exception is_async stream_start_time response
             now default_id) = cid)
   \<and> (map_of kwargs EXPORT_TIMESTAMP_ARG_NAME = Some ts \<longrightarrow>
        logged_export_timestamp
          (export_call cls kwargs start_time is_exception is_async stream_start_time response
             now default_id) = ts)
   \<and> (map_of kwargs ADDITIONAL_DATA_ARG_NAME = Some ad \<longrightarrow>
        map_of (uncleaned_message cls kwargs start_time is_exception is_async
                  stream_start_time response now) ''additional_data'' =
          (if truthy ad then Some ad else None))
   \<and> (without_mona_args kwargs' = without_mona_args kwargs
        \<and> map_of kwargs' CONTEXT_ID_ARG_NAME = map_of kwargs CONTEXT_ID_ARG_NAME
        \<and> map_of kwargs' EXPORT_TIMESTAMP_ARG_NAME = map_of kwargs EXPORT_TIMESTAMP_ARG_NAME
        \<and> map_of kwargs' ADDITIONAL_DATA_ARG_NAME = map_of kwargs ADDITIONAL_DATA_ARG_NAME
        \<longrightarrow>
        export_call cls kwargs' start_time is_exception is_async stream_start_time response
          now default_id =
        export_call cls kwargs start_time is_exception is_async stream_start_time response
          now default_id)"
proof -
  have a: "inner_super_function tgt args kwargs = fn_call tgt args (without_mona_args kwargs)"
    by (simp add: inner_super_function_def call_non_blocking_sync_or_async_def)
  have b: "logged_message
       (export_call cls kwargs start_time is_exception is_async stream_start_time response
          now default_id) =
     get_clean_message cls
       (uncleaned_message cls kwargs start_time is_exception is_async stream_start_time
          response now)"
    by (simp add: export_call_def)
  have c: "map_of (uncleaned_message cls kwargs start_time is_exception is_async
               stream_start_time response now) ''input'' = Some (PDict (without_mona_args kwargs))"
    by (simp add: map_of_uncleaned map_of_message Let_def)
  have d: "map_of kwargs CONTEXT_ID_ARG_NAME = Some cid \<longrightarrow>
        logged_context_id
          (export_call cls kwargs start_time is_exception is_async stream_start_time response
             now default_id) = cid"
    by (simp add: export_call_def dict_get_def)
  have e: "map_of kwargs EXPORT_TIMESTAMP_ARG_NAME = Some ts \<longrightarrow>
        logged_export_timestamp
          (export_call cls kwargs start_time is_exception is_async stream_start_time response
             now default_id) = ts"
    by (simp add: export_call_def dict_get_def)
  have f: "map_of kwargs ADDITIONAL_DATA_ARG_NAME = Some ad \<longrightarrow>
        map_of (uncleaned_message cls kwargs start_time is_exception is_async
                  stream_start_time response now) ''additional_data'' =
          (if truthy ad then Some ad else None)"
    by (simp add: map_of_uncleaned map_of_message Let_def dict_get_def)
  show ?thesis
    using a b c d e f without_mona_args_keys [of kwargs]
      inner_create_emits [of cls env tgt args kwargs]
      stream_done_callback_emits [of cls env c final_response stream_start]
      export_call_depends [of kwargs' kwargs cls start_time is_exception is_async
        stream_start_time response now default_id]
    by blast
qed

text \<open>
  A call that supplies the three Mona arguments, alone and together with a fourth key of
  the same prefix, and a stream callback on the same arguments.
\<close>

theorem mona_args_stripped_and_routed_witness:
  "map_of [(''prompt'', PStr ''hello''), (''MONA_context_id'', PStr ''ctx7''),
         (''MONA_export_timestamp'', PFloat 5),
         (''MONA_additional_data'', PDict [(''template'', PStr ''t7'')])]
      CONTEXT_ID_ARG_NAME = Some (PStr ''ctx7'')
   \<and> map_of [(''prompt'', PStr ''hello''), (''MONA_context_id'', PStr ''ctx7''),
         (''MONA_export_timestamp'', PFloat 5),
         (''MONA_additional_data'', PDict [(''template'', PStr ''t7'')])]
      EXPORT_TIMESTAMP_ARG_NAME = Some (PFloat 5)
   \<and> map_of [(''prompt'', PStr ''hello''), (''MONA_context_id'', PStr ''ctx7''),
         (''MONA_export_timestamp'', PFloat 5),
         (''MONA_additional_data'', PDict [(''template'', PStr ''t7'')])]
      ADDITIONAL_DATA_ARG_NAME = Some (PDict [(''template'', PStr ''t7'')])
   \<and> without_mona_args
        [(''prompt'', PStr ''hello''), (''MONA_context_id'', PStr ''ctx7''),
         (''MONA_export_timestamp'', PFloat 5),
         (''MONA_additional_data'', PDict [(''template'', PStr ''t7'')])] =
       [(''prompt'', PStr ''hello'')]
   \<and> without_mona_args
        [(''prompt'', PStr ''hello''), (''MONA_context_id'', PStr ''ctx7''),
         (''MONA_export_timestamp'', PFloat 5),
         (''MONA_additional_data'', PDict [(''template'', PStr ''t7'')]),
         (''MONA_tag'', PStr ''x'')] =
       [(''prompt'', PStr ''hello'')]
   \<and> inner_super_function create_ok []
        [(''prompt'', PStr ''hello''), (''MONA_context_id'', PStr ''ctx7''),
         (''MONA_export_timestamp'', PFloat 5),
         (''MONA_additional_data'', PDict [(''template'', PStr ''t7'')])] =
       fn_call create_ok [] [(''prompt'', PStr ''hello'')]
   \<and> inner_create completion_cls a_call create_ok []
        [(''prompt'', PStr ''hello''), (''MONA_context_id'', PStr ''ctx7''),
         (''MONA_export_timestamp'', PFloat 5),
         (''MONA_additional_data'', PDict [(''template'', PStr ''t7'')])] =
       (Inr (Response (PDict [(''id'', PStr ''r1''), (''choices'', PList [])])),
        [\<lparr>logged_message =
            [(''input'', PDict [(''prompt'', PStr ''hello'')]),
             (''latency'', PFloat 3), (''stream_start_latency'', PNone),
             (''is_exception'', PBool False), (''api_name'', PStr ''Completion''),
             (''is_async'', PBool False),
             (''additional_data'', PDict [(''template'', PStr ''t7'')]),
             (''response'', PDict [(''id'', PStr ''r1''), (''choices'', PList [])]),
             (''analysis'', PDict [(''analysed'', PBool True)])],
          logged_context_id = PStr ''ctx7'',
          logged_export_timestamp = PFloat 5\<rparr>])
   \<and> inner_create completion_cls a_call create_ok []
        [(''prompt'', PStr ''hello''), (''MONA_context_id'', PStr ''ctx7''),
         (''MONA_export_timestamp'', PFloat 5),
         (''MONA_additional_data'', PDict [(''template'', PStr ''t7'')]),
         (''MONA_tag'', PStr ''x'')] =
       (Inr (Response (PDict [(''id'', PStr ''r1''), (''choices'', PList [])])),
        [\<lparr>logged_message =
            [(''input'', PDict [(''prompt'', PStr ''hello'')]),
             (''latency'', PFloat 3), (''stream_start_latency'', PNone),
             (''is_exception'', PBool False), (''api_name'', PStr ''Completion''),
             (''is_async'', PBool False),
             (''additional_data'', PDict [(''template'', PStr ''t7'')]),
             (''response'', PDict [(''id'', PStr ''r1''), (''choices'', PList [])]),
             (''analysis'', PDict [(''analysed'', PBool True)])],
          logged_context_id = PStr ''ctx7'',
          logged_export_timestamp = PFloat 5\<rparr>])
   \<and> map (\<lambda>r. (logged_context_id r, logged_export_timestamp r,
                map_of (logged_message r) ''additional_data''))
        (snd (stream_done_callback completion_cls a_call
               \<lparr>closure_kwargs =
                  [(''prompt'', PStr ''hello''), (''MONA_context_id'', PStr ''ctx7''),
         (''MONA_export_timestamp'', PFloat 5),
         (''MONA_additional_data'', PDict [(''template'', PStr ''t7'')])],
                closure_is_async = False\<rparr>
               (completion_shape [choice_of_text 0 ''abcd'']) (Some 101))) =
       [(PStr ''ctx7'', PFloat 5, Some (PDict [(''template'', PStr ''t7'')]))]"
  using mona_args_stripped_and_routed [of create_ok "[]"
      "[(''prompt'', PStr ''hello''), (''MONA_context_id'', PStr ''ctx7''),
         (''MONA_export_timestamp'', PFloat 5),
         (''MONA_additional_data'', PDict [(''template'', PStr ''t7'')])]"
      completion_cls a_call
      "\<lparr>closure_kwargs =
                  [(''prompt'', PStr ''hello''), (''MONA_context_id'', PStr ''ctx7''),
         (''MONA_export_timestamp'', PFloat 5),
         (''MONA_additional_data'', PDict [(''template'', PStr ''t7'')])],
                closure_is_async = False\<rparr>"
      "completion_shape [choice_of_text 0 ''abcd'']" "Some 101" 100 False False None
      "PDict [(''id'', PStr ''r1''), (''choices'', PList [])]" 103 "PStr ''r1''"
      "PStr ''ctx7''" "PFloat 5" "PDict [(''template'', PStr ''t7'')]"
      "[(''prompt'', PStr ''hello''), (''MONA_context_id'', PStr ''ctx7''),
         (''MONA_export_timestamp'', PFloat 5),
         (''MONA_additional_data'', PDict [(''template'', PStr ''t7'')]),
         (''MONA_tag'', PStr ''x'')]"]
  by (simp add: run_defs example_defs const_defs)

text \<open>
  A key with the prefix that is none of the three: it is not forwarded and not in the
  input, and its value is in no field of the record and in neither logging parameter.
\<close>

theorem unknown_mona_arg_dropped:
  "startswith ''MONA_tag'' MONA_ARGS_PREFIX
   \<and> inner_create completion_cls a_call create_ok []
        [(''prompt'', PStr ''hello''), (''MONA_tag'', PStr ''x'')] =
       (Inr (Response (PDict [(''id'', PStr ''r1''), (''choices'', PList [])])),
        [\<lparr>logged_message =
            [(''input'', PDict [(''prompt'', PStr ''hello'')]),
             (''latency'', PFloat 3), (''stream_start_latency'', PNone),
             (''is_exception'', PBool False), (''api_name'', PStr ''Completion''),
             (''is_async'', PBool False),
             (''response'', PDict [(''id'', PStr ''r1''), (''choices'', PList [])]),
             (''analysis'', PDict [(''analysed'', PBool True)])],
          logged_context_id = PStr ''r1'',
          logged_export_timestamp = PFloat 100\<rparr>])"
  by (simp add: run_defs example_defs const_defs)

section \<open>Streaming calls\<close>

text \<open>
  C2 (amended). For a streaming call whose target returns a sequence of chunks, the
  wrapper returns the iterator without emitting anything; a caller that exhausts it
  receives exactly the chunks of the source, in order, and the completion callback then
  runs once on the synthesized response: one final choice per choice index, in order of
  first arrival, built from the concatenation of that choice's delta texts in arrival
  order. The callback adds the usage computed by the usage computer and, when the
  sampling draw is below the ratio, the input can be copied and the default context id
  can be read from the response, makes one export call whose message carries that
  response; when the draw is not below the ratio it emits nothing.
\<close>

theorem stream_passthrough_and_record:
  assumes "truthy (dict_get kwargs ''stream'' (PBool False))"
      and "inner_super_function tgt args kwargs = Inr (PIter chunks)"
  shows "inner_create cls env tgt args kwargs =
           (Inr (Stream \<lparr>original_iterator = PIter chunks,
                         callback = \<lparr>closure_kwargs = kwargs,
                                     closure_is_async = (fn_name tgt = ''acreate'')\<rparr>\<rparr>),
            [])
    \<and> exhaust cls env fmt
         \<lparr>original_iterator = PIter chunks,
          callback = \<lparr>closure_kwargs = kwargs,
                      closure_is_async = (fn_name tgt = ''acreate'')\<rparr>\<rparr> =
        Some (chunks,
              if random_draw env < sampling_ratio cls
              then (case deepcopy (without_mona_args kwargs) of
                      Inl e \<Rightarrow> (Inl e, [])
                    | Inr request_input \<Rightarrow>
                        (case default_context_id
                                (response_with_usage cls kwargs
                                   (synthesized_response fmt chunks)) of
                           Inl e \<Rightarrow> (Inl e, [])
                         | Inr default_id \<Rightarrow>
                             (Inr (),
                              [export_call cls kwargs (time_at_start env) False
                                 (fn_name tgt = ''acreate'')
                                 (if chunks = [] then None
                                  else Some (time_at_first_chunk env))
                                 (response_with_usage cls kwargs
                                    (synthesized_response fmt chunks))
                                 (time_at_log env) default_id])))
              else (Inr (), []))
    \<and> synthesized_response fmt chunks =
        response_of_choices fmt
          (map (\<lambda>i. get_final_choice fmt i
                       (concat (map (\<lambda>(j, choice). get_stream_delta_text_from_choice fmt choice)
                                  (filter (\<lambda>(j, choice). j = i)
                                     (concat (map (chunk_choices fmt) chunks))))))
             (first_seen (map fst (concat (map (chunk_choices fmt) chunks)))))
    \<and> response_with_usage cls kwargs (synthesized_response fmt chunks) =
        PDict (AList.update ''usage''
                 (get_usage cls (get_model_param cls kwargs) (get_all_prompt_texts cls kwargs)
                    (get_all_response_texts cls (synthesized_response fmt chunks)))
                 (synthesized_response fmt chunks))
    \<and> map_of (uncleaned_message cls kwargs (time_at_start env) False
                (fn_name tgt = ''acreate'')
                (if chunks = [] then None else Some (time_at_first_chunk env))
                (response_with_usage cls kwargs (synthesized_response fmt chunks))
                (time_at_log env)) ''response'' =
        Some (response_with_usage cls kwargs (synthesized_response fmt chunks))"
proof -
  have created: "inner_create cls env tgt args kwargs =
           (Inr (Stream \<lparr>original_iterator = PIter chunks,
                         callback = \<lparr>closure_kwargs = kwargs,
                                     closure_is_async = (fn_name tgt = ''acreate'')\<rparr>\<rparr>),
            [])"
    using assms by (simp add: inner_create_streams)
  have exhausted: "exhaust cls env fmt
         \<lparr>original_iterator = PIter chunks,
          callback = \<lparr>closure_kwargs = kwargs,
                      closure_is_async = (fn_name tgt = ''acreate'')\<rparr>\<rparr> =
        Some (chunks,
              if random_draw env < sampling_ratio cls
              then (case deepcopy (without_mona_args kwargs) of
                      Inl e \<Rightarrow> (Inl e, [])
                    | Inr request_input \<Rightarrow>
                        (case default_context_id
                                (response_with_usage cls kwargs
                                   (synthesized_response fmt chunks)) of
                           Inl e \<Rightarrow> (Inl e, [])
                         | Inr default_id \<Rightarrow>
                             (Inr (),
                              [export_call cls kwargs (time_at_start env) False
                                 (fn_name tgt = ''acreate'')
                                 (if chunks = [] then None
                                  else Some (time_at_first_chunk env))
                                 (response_with_usage cls kwargs
                                    (synthesized_response fmt chunks))
                                 (time_at_log env) default_id])))
              else (Inr (), []))"
    unfolding exhaust_eq stream_done_callback_eq log_message_eq inner_log_message_eq
    by (simp split: sum.splits)
  have shape: "synthesized_response fmt chunks =
        response_of_choices fmt
          (map (\<lambda>i. get_final_choice fmt i
                       (concat (map (\<lambda>(j, choice). get_stream_delta_text_from_choice fmt choice)
                                  (filter (\<lambda>(j, choice). j = i)
                                     (concat (map (chunk_choices fmt) chunks))))))
             (first_seen (map fst (concat (map (chunk_choices fmt) chunks)))))"
    by (simp add: synthesized_response_def delta_texts_def stream_choices_def)
  have field: "map_of (uncleaned_message cls kwargs (time_at_start env) False
                (fn_name tgt = ''acreate'')
                (if chunks = [] then None else Some (time_at_first_chunk env))
                (response_with_usage cls kwargs (synthesized_response fmt chunks))
                (time_at_log env)) ''response'' =
        Some (response_with_usage cls kwargs (synthesized_response fmt chunks))"
    by (simp add: map_of_uncleaned map_of_message Let_def response_with_usage_dict)
  show ?thesis
    using created exhausted shape field
      response_with_usage_dict [of cls kwargs "synthesized_response fmt chunks"]
    by blast
qed

text \<open>
  Three chunks over two choices: choice 0 receives a, b, c and choice 1 receives x, y.
\<close>

theorem stream_passthrough_and_record_witness:
  "truthy (dict_get [(''prompt'', PStr ''hello''), (''stream'', PBool True)] ''stream''
             (PBool False))
   \<and> inner_super_function create_streaming_two []
         [(''prompt'', PStr ''hello''), (''stream'', PBool True)] =
       Inr (PIter two_choice_chunks)
   \<and> inner_create completion_cls a_call create_streaming_two []
         [(''prompt'', PStr ''hello''), (''stream'', PBool True)] =
       (Inr (Stream \<lparr>original_iterator = PIter two_choice_chunks,
                     callback = \<lparr>closure_kwargs =
                                   [(''prompt'', PStr ''hello''), (''stream'', PBool True)],
                                 closure_is_async = False\<rparr>\<rparr>), [])
   \<and> exhaust completion_cls a_call indexed_format
         \<lparr>original_iterator = PIter two_choice_chunks,
          callback = \<lparr>closure_kwargs =
                        [(''prompt'', PStr ''hello''), (''stream'', PBool True)],
                      closure_is_async = False\<rparr>\<rparr> =
       Some (two_choice_chunks,
             Inr (),
             [\<lparr>logged_message =
                 [(''input'',
                   PDict [(''prompt'', PStr ''hello''), (''stream'', PBool True)]),
                  (''latency'', PFloat 3), (''stream_start_latency'', PFloat 1),
                  (''is_exception'', PBool False),
                  (''api_name'', PStr ''Completion''), (''is_async'', PBool False),
                  (''response'',
                   PDict
                    [(''id'', PStr ''r1''),
                     (''choices'',
                      PList
                       [PDict [(''index'', PInt 0), (''text'', PStr ''abc'')],
                        PDict [(''index'', PInt 1), (''text'', PStr ''xy'')]]),
                     (''usage'',
                      PDict
                       [(''prompts'', PList [PStr ''hello'']),
                        (''responses'',
                         PList
                          [PDict [(''index'', PInt 0), (''text'', PStr ''abc'')],
                           PDict [(''index'', PInt 1), (''text'', PStr ''xy'')]])])]),
                  (''analysis'', PDict [(''analysed'', PBool True)])],
               logged_context_id = PStr ''r1'',
               logged_export_timestamp = PFloat 100\<rparr>])"
proof -
  have h1: "truthy (dict_get [(''prompt'', PStr ''hello''), (''stream'', PBool True)] ''stream''
             (PBool False))"
    by (simp add: dict_get_def)
  have h2: "inner_super_function create_streaming_two []
         [(''prompt'', PStr ''hello''), (''stream'', PBool True)] =
       Inr (PIter two_choice_chunks)"
    by (simp add: inner_super_function_def call_non_blocking_sync_or_async_def
        create_streaming_two_def streaming_two_def)
  have fn: "fn_name create_streaming_two = ''create''"
    by (simp add: create_streaming_two_def)
  have s: "synthesized_response indexed_format two_choice_chunks =
      [(''id'', PStr ''r1''),
       (''choices'',
        PList [PDict [(''index'', PInt 0), (''text'', PStr ''abc'')],
               PDict [(''index'', PInt 1), (''text'', PStr ''xy'')]])]"
    by (simp add: synthesized_response_def stream_choices_def delta_texts_def example_defs
        dict_get_def)
  note t = stream_passthrough_and_record [OF h1 h2, of completion_cls a_call indexed_format]
  have created: "inner_create completion_cls a_call create_streaming_two []
         [(''prompt'', PStr ''hello''), (''stream'', PBool True)] =
       (Inr (Stream \<lparr>original_iterator = PIter two_choice_chunks,
                     callback = \<lparr>closure_kwargs =
                                   [(''prompt'', PStr ''hello''), (''stream'', PBool True)],
                                 closure_is_async = False\<rparr>\<rparr>), [])"
    using t [THEN conjunct1] by (simp add: fn)
  have exhausted: "exhaust completion_cls a_call indexed_format
         \<lparr>original_iterator = PIter two_choice_chunks,
          callback = \<lparr>closure_kwargs =
                        [(''prompt'', PStr ''hello''), (''stream'', PBool True)],
                      closure_is_async = False\<rparr>\<rparr> =
       Some (two_choice_chunks,
             Inr (),
             [\<lparr>logged_message =
                 [(''input'',
                   PDict [(''prompt'', PStr ''hello''), (''stream'', PBool True)]),
                  (''latency'', PFloat 3), (''stream_start_latency'', PFloat 1),
                  (''is_exception'', PBool False),
                  (''api_name'', PStr ''Completion''), (''is_async'', PBool False),
                  (''response'',
                   PDict
                    [(''id'', PStr ''r1''),
                     (''choices'',
                      PList
                       [PDict [(''index'', PInt 0), (''text'', PStr ''abc'')],
                        PDict [(''index'', PInt 1), (''text'', PStr ''xy'')]]),
                     (''usage'',
                      PDict
                       [(''prompts'', PList [PStr ''hello'']),
                        (''responses'',
                         PList
                          [PDict [(''index'', PInt 0), (''text'', PStr ''abc'')],
                           PDict [(''index'', PInt 1), (''text'', PStr ''xy'')]])])]),
                  (''analysis'', PDict [(''analysed'', PBool True)])],
               logged_context_id = PStr ''r1'',
               logged_export_timestamp = PFloat 100\<rparr>])"
    using t [THEN conjunct2, THEN conjunct1]
    unfolding s fn
    by (simp add: response_with_usage_def dict_union_def default_context_id_def
        export_call_def uncleaned_message_def get_logging_message_def deepcopy_def
        without_mona_args_def startswith_def dict_get_def Let_def const_defs
        completion_cls_def a_call_def keep_message_def no_analysis_def model_of_def
        prompts_of_def texts_of_def usage_of_def two_choice_chunks_def)
  show ?thesis using h1 h2 created exhausted by blast
qed

text \<open>
  Scenario C of the spec with sampling ratio 0: the caller exhausts the sequence and no
  record is emitted.
\<close>

theorem stream_exhausted_without_record:
  "inner_create unsampled_cls a_call create_streaming []
     [(''prompt'', PStr ''hello''), (''stream'', PBool True)] =
     (Inr (Stream
        \<lparr>original_iterator = PIter [PStr ''a'', PStr ''b'', PStr ''c'', PStr ''d''],
         callback = \<lparr>closure_kwargs = [(''prompt'', PStr ''hello''), (''stream'', PBool True)],
                     closure_is_async = False\<rparr>\<rparr>), [])
   \<and> exhaust unsampled_cls a_call one_choice_format
        \<lparr>original_iterator = PIter [PStr ''a'', PStr ''b'', PStr ''c'', PStr ''d''],
         callback = \<lparr>closure_kwargs = [(''prompt'', PStr ''hello''), (''stream'', PBool True)],
                     closure_is_async = False\<rparr>\<rparr> =
       Some ([PStr ''a'', PStr ''b'', PStr ''c'', PStr ''d''], Inr (), [])"
  by (simp add: run_defs example_defs const_defs)

section \<open>The blocking bridge\<close>

text \<open>
  C9. The claim is that \<^verbatim>\<open>run_in_an_event_loop\<close> picks its step by the state of the
  scheduler and that a blocking call gives the same result inside a running scheduler as
  in a plain context. The steps are picked by \<^verbatim>\<open>RuntimeError\<close> alone, and a
  \<^verbatim>\<open>RuntimeError\<close> raised by the task is taken for the scheduler's: in a plain context
  \<^verbatim>\<open>asyncio.run\<close> runs the task, which raises, the two later steps are then tried on
  the spent coroutine, and the caller receives another \<^verbatim>\<open>RuntimeError\<close>; inside a
  running scheduler the task is run once, by the third step, and the caller receives the
  task's own exception.
\<close>

theorem task_runtime_error_taken_for_the_scheduler:
  "fst (run_in_an_event_loop asyncio_run loop_run_until_complete nest_asyncio_apply
          \<lparr>loop = No_Loop, nest_applied = False,
           task = Some (Inl (Exn ''RuntimeError'' ''boom''), []), exported = []\<rparr>) =
     (Inl (Exn ''RuntimeError'' ''cannot reuse already awaited coroutine'') :: exn + pyval)
   \<and> fst (run_in_an_event_loop asyncio_run loop_run_until_complete nest_asyncio_apply
          \<lparr>loop = Running_Loop, nest_applied = False,
           task = Some (Inl (Exn ''RuntimeError'' ''boom''), []), exported = []\<rparr>) =
     (Inl (Exn ''RuntimeError'' ''boom'') :: exn + pyval)
   \<and> fst (asyncio_run
          \<lparr>loop = No_Loop, nest_applied = False,
           task = Some (Inl (Exn ''RuntimeError'' ''boom''), []), exported = []\<rparr>) =
     (Inl (Exn ''RuntimeError'' ''boom'') :: exn + pyval)"
  by (simp add: asyncio_defs)

end
